theory Spec2Isabelle
  imports Complex_Main
begin

section \<open>The filtering expression engine of bcftools (filter.c)\<close>

text \<open>
  A shallow embedding of \<^verbatim>\<open>filter.c\<close>: the lexer \<^verbatim>\<open>filters_next_token\<close>, the
  binding of value lexemes \<^verbatim>\<open>filters_init1\<close>, the shunting-yard compiler
  \<^verbatim>\<open>filter_init\<close>, the setters, the comparison, arithmetic and logic kernels and the
  postfix evaluator \<^verbatim>\<open>filter_test\<close>.

  Conventions of the embedding.
  \<^item> A call of \<^verbatim>\<open>error(...)\<close> (which prints and exits) is the result \<open>Inl Fatal\<close>.
  \<^item> An access outside the data a buffer holds (a read of the evaluation stack below its
    bottom, a read of \<^verbatim>\<open>values[i]\<close> or \<^verbatim>\<open>pass_samples[i]\<close> past the entries
    written, a NULL mask) is undefined behaviour in C; it is the result \<open>Inl MemFault\<close>.
  \<^item> A C \<^verbatim>\<open>float\<close> is a value of the type \<open>fval\<close>: a finite number (kept as an exact
    real: rounding and overflow are outside the model, signed zeros are not told apart),
    an infinity, a NaN, or one of the two NaN bit patterns of the BCF format, "missing"
    and "vector end".
  \<^item> The header and the record are objects of htslib; they are records of the values
    and reader functions that \<^verbatim>\<open>filter.c\<close> asks of them.
\<close>

datatype err = Fatal | MemFault

subsection \<open>Floats\<close>

datatype fval = FNum real | FPInf | FNInf | FNaN | FMissing | FVectorEnd

definition is_nan :: "fval \<Rightarrow> bool" where
  "is_nan x = (x = FNaN \<or> x = FMissing \<or> x = FVectorEnd)"

definition bcf_float_is_missing :: "fval \<Rightarrow> bool" where
  "bcf_float_is_missing x = (x = FMissing)"

definition bcf_float_is_vector_end :: "fval \<Rightarrow> bool" where
  "bcf_float_is_vector_end x = (x = FVectorEnd)"

text \<open>The sign of a non-NaN value: \<open>-1\<close>, \<open>0\<close> or \<open>1\<close>.\<close>

definition fsign :: "fval \<Rightarrow> int" where
  "fsign x = (case x of FNum r \<Rightarrow> (if r < 0 then -1 else if r = 0 then 0 else 1)
                | FPInf \<Rightarrow> 1 | FNInf \<Rightarrow> -1 | _ \<Rightarrow> 0)"

definition is_inf :: "fval \<Rightarrow> bool" where
  "is_inf x = (x = FPInf \<or> x = FNInf)"

definition finf :: "int \<Rightarrow> fval" where
  "finf s = (if s < 0 then FNInf else FPInf)"

definition fneg :: "fval \<Rightarrow> fval" where
  "fneg x = (case x of FNum r \<Rightarrow> FNum (- r) | FPInf \<Rightarrow> FNInf | FNInf \<Rightarrow> FPInf | _ \<Rightarrow> FNaN)"

definition fadd :: "fval \<Rightarrow> fval \<Rightarrow> fval" where
  "fadd a b =
     (if is_nan a \<or> is_nan b then FNaN
      else case (a, b) of
        (FNum x, FNum y) \<Rightarrow> FNum (x + y)
      | (FNum x, _) \<Rightarrow> b
      | (_, FNum y) \<Rightarrow> a
      | _ \<Rightarrow> (if a = b then a else FNaN))"

definition fsub :: "fval \<Rightarrow> fval \<Rightarrow> fval" where
  "fsub a b = fadd a (fneg b)"

definition fmul :: "fval \<Rightarrow> fval \<Rightarrow> fval" where
  "fmul a b =
     (if is_nan a \<or> is_nan b then FNaN
      else case (a, b) of
        (FNum x, FNum y) \<Rightarrow> FNum (x * y)
      | _ \<Rightarrow> (if fsign a * fsign b = 0 then FNaN else finf (fsign a * fsign b)))"

definition fdiv :: "fval \<Rightarrow> fval \<Rightarrow> fval" where
  "fdiv a b =
     (if is_nan a \<or> is_nan b then FNaN
      else case (a, b) of
        (FNum x, FNum y) \<Rightarrow>
          (if y = 0 then (if x = 0 then FNaN else finf (fsign a)) else FNum (x / y))
      | (FNum x, _) \<Rightarrow> FNum 0
      | (_, FNum y) \<Rightarrow> finf (if y < 0 then - fsign a else fsign a)
      | _ \<Rightarrow> FNaN)"

definition f_lt :: "fval \<Rightarrow> fval \<Rightarrow> bool" where
  "f_lt a b =
     (if is_nan a \<or> is_nan b then False
      else case (a, b) of
        (FNum x, FNum y) \<Rightarrow> x < y
      | _ \<Rightarrow> (a = FNInf \<and> b \<noteq> FNInf) \<or> (b = FPInf \<and> a \<noteq> FPInf))"

definition f_eq :: "fval \<Rightarrow> fval \<Rightarrow> bool" where
  "f_eq a b = (if is_nan a \<or> is_nan b then False else a = b)"

definition f_le :: "fval \<Rightarrow> fval \<Rightarrow> bool" where
  "f_le a b = (f_lt a b \<or> f_eq a b)"

definition f_gt :: "fval \<Rightarrow> fval \<Rightarrow> bool" where
  "f_gt a b = f_lt b a"

definition f_ge :: "fval \<Rightarrow> fval \<Rightarrow> bool" where
  "f_ge a b = f_le b a"

definition f_ne :: "fval \<Rightarrow> fval \<Rightarrow> bool" where
  "f_ne a b = (if f_eq a b then False else True)"

text \<open>The conversion \<^verbatim>\<open>(int)x\<close> of a float: truncation towards zero (undefined in C
  for a NaN or an infinity: 0 here).\<close>

definition f2int :: "fval \<Rightarrow> int" where
  "f2int x = (case x of FNum r \<Rightarrow> (if r < 0 then - \<lfloor>- r\<rfloor> else \<lfloor>r\<rfloor>) | _ \<Rightarrow> 0)"

subsection \<open>Buffers and loops\<close>

text \<open>A read of \<^verbatim>\<open>buf[i]\<close>, and a write of it. A write may also extend the entries
  written by one (after \<^verbatim>\<open>hts_expand\<close> the memory is there).\<close>

definition rd :: "'a list \<Rightarrow> nat \<Rightarrow> err + 'a" where
  "rd xs i = (if i < length xs then Inr (xs ! i) else Inl MemFault)"

definition wr :: "'a list \<Rightarrow> nat \<Rightarrow> 'a \<Rightarrow> err + 'a list" where
  "wr xs i v = (if i < length xs then Inr (xs[i := v]) else Inl MemFault)"

definition wr_ext :: "'a list \<Rightarrow> nat \<Rightarrow> 'a \<Rightarrow> err + 'a list" where
  "wr_ext xs i v =
     (if i < length xs then Inr (xs[i := v])
      else if i = length xs then Inr (xs @ [v]) else Inl MemFault)"

definition bindE :: "err + 'a \<Rightarrow> ('a \<Rightarrow> err + 'b) \<Rightarrow> err + 'b" where
  "bindE m f = (case m of Inl e \<Rightarrow> Inl e | Inr x \<Rightarrow> f x)"

text \<open>\<^verbatim>\<open>for (i=0; i<n; i++) body\<close> over a loop state; a fault in the body ends it.\<close>

primrec for_up :: "nat \<Rightarrow> (nat \<Rightarrow> 's \<Rightarrow> err + 's) \<Rightarrow> 's \<Rightarrow> err + 's" where
  "for_up 0 body s = Inr s"
| "for_up (Suc n) body s = bindE (for_up n body s) (body n)"

text \<open>C truth values.\<close>

definition b2i :: "bool \<Rightarrow> int" where
  "b2i b = (if b then 1 else 0)"

definition b2u :: "bool \<Rightarrow> nat" where
  "b2u b = (if b then 1 else 0)"

text \<open>The conversion of an \<^verbatim>\<open>int\<close> to \<^verbatim>\<open>uint8_t\<close>.\<close>

definition u8 :: "int \<Rightarrow> nat" where
  "u8 x = nat (x mod 256)"

subsection \<open>Tokens\<close>

datatype tok_kind =
    TOK_VAL | TOK_LFT | TOK_RGT | TOK_LE | TOK_LT | TOK_EQ | TOK_BT | TOK_BE | TOK_NE
  | TOK_OR | TOK_AND | TOK_ADD | TOK_SUB | TOK_MULT | TOK_DIV | TOK_MAX | TOK_MIN | TOK_AVG
  | TOK_AND_VEC | TOK_OR_VEC | TOK_FUNC

text \<open>The value of each \<^verbatim>\<open>#define TOK_*\<close>.\<close>

fun tok_code :: "tok_kind \<Rightarrow> nat" where
  "tok_code TOK_VAL = 0" | "tok_code TOK_LFT = 1" | "tok_code TOK_RGT = 2"
| "tok_code TOK_LE = 3" | "tok_code TOK_LT = 4" | "tok_code TOK_EQ = 5"
| "tok_code TOK_BT = 6" | "tok_code TOK_BE = 7" | "tok_code TOK_NE = 8"
| "tok_code TOK_OR = 9" | "tok_code TOK_AND = 10" | "tok_code TOK_ADD = 11"
| "tok_code TOK_SUB = 12" | "tok_code TOK_MULT = 13" | "tok_code TOK_DIV = 14"
| "tok_code TOK_MAX = 15" | "tok_code TOK_MIN = 16" | "tok_code TOK_AVG = 17"
| "tok_code TOK_AND_VEC = 18" | "tok_code TOK_OR_VEC = 19" | "tok_code TOK_FUNC = 20"

definition op_prec :: "nat list" where
  "op_prec = [0,1,1,5,5,5,5,5,5,2,3, 6, 6, 7, 7, 8, 8, 8, 3, 2]"

text \<open>The function a token's \<^verbatim>\<open>setter\<close> pointer holds (\<open>NoSetter\<close>: NULL).\<close>

datatype setter_t =
    NoSetter | filters_set_qual | filters_set_type | filters_set_info
  | filters_set_info_int | filters_set_info_float | filters_set_info_flag
  | filters_set_format_int | filters_set_format_float | filters_set_format_string
  | set_max_fn | set_min_fn | set_avg_fn

text \<open>\<^verbatim>\<open>token_t\<close>. \<open>comparator\<close> is whether the pointer holds
  \<^verbatim>\<open>filters_cmp_filter\<close>, the only comparator there is; \<open>tvalues\<close> is the buffer
  \<^verbatim>\<open>values\<close> (the entries written), \<open>str_value\<close> the bytes the pointer leads to, and
  \<open>pass_samples\<close> the mask, one byte per sample, \<open>[]\<close> when it was not allocated.\<close>

record token =
  tok_type :: tok_kind
  key :: "string option"
  tag :: "string option"
  threshold :: fval
  hdr_id :: int
  idx :: int
  setter :: setter_t
  comparator :: bool
  tvalues :: "fval list"
  str_value :: string
  is_str :: int
  pass_site :: int
  pass_samples :: "nat list"
  nsamples :: nat
  nvalues :: nat

subsection \<open>The functions %MAX, %MIN and %AVG\<close>

definition set_max :: "token \<Rightarrow> err + token" where
  "set_max tok =
     bindE (for_up (nvalues tok)
              (\<lambda>i val. bindE (rd (tvalues tok) i)
                 (\<lambda>v. Inr (if \<not> bcf_float_is_missing v \<and> f_lt val v then v else val)))
              FNInf)
       (\<lambda>val. bindE (wr_ext (tvalues tok) 0 val)
          (\<lambda>vs. Inr (tok\<lparr>tvalues := vs, nvalues := 1, nsamples := 0\<rparr>)))"

definition set_min :: "token \<Rightarrow> err + token" where
  "set_min tok =
     bindE (for_up (nvalues tok)
              (\<lambda>i val. bindE (rd (tvalues tok) i)
                 (\<lambda>v. Inr (if \<not> bcf_float_is_missing v \<and> f_gt val v then v else val)))
              FPInf)
       (\<lambda>val. bindE (wr_ext (tvalues tok) 0 val)
          (\<lambda>vs. Inr (tok\<lparr>tvalues := vs, nvalues := 1, nsamples := 0\<rparr>)))"

text \<open>In \<^verbatim>\<open>set_avg\<close> the counter \<^verbatim>\<open>n\<close> is initialised to 0 and no statement of the
  loop changes it: the loop state is the sum alone.\<close>

definition set_avg :: "token \<Rightarrow> err + token" where
  "set_avg tok =
     (let n = (0::int) in
      bindE (for_up (nvalues tok)
               (\<lambda>i val. bindE (rd (tvalues tok) i)
                  (\<lambda>v. Inr (if \<not> bcf_float_is_missing v then fadd val v else val)))
               (FNum 0))
        (\<lambda>val. bindE (wr_ext (tvalues tok) 0
                         (if n \<noteq> 0 then fdiv val (FNum (of_int n)) else FNum 0))
           (\<lambda>vs. Inr (tok\<lparr>tvalues := vs, nvalues := 1, nsamples := 0\<rparr>))))"

subsection \<open>The logical combinators\<close>

text \<open>A mask byte read as a truth value, and the C operators \<^verbatim>\<open>&&\<close> and \<^verbatim>\<open>||\<close>, which
  evaluate their right operand only when the left one does not decide.\<close>

definition rdb :: "nat list \<Rightarrow> nat \<Rightarrow> err + bool" where
  "rdb ps i = bindE (rd ps i) (\<lambda>x. Inr (x \<noteq> 0))"

definition c_and :: "err + bool \<Rightarrow> err + bool \<Rightarrow> err + bool" where
  "c_and a b = bindE a (\<lambda>x. if x then b else Inr False)"

definition c_or :: "err + bool \<Rightarrow> err + bool \<Rightarrow> err + bool" where
  "c_or a b = bindE a (\<lambda>x. if x then Inr True else b)"

text \<open>The state of the loops of the two combinators is the mask \<^verbatim>\<open>atok->pass_samples\<close>
  and the local \<^verbatim>\<open>pass_site\<close>. The two statements that follow the computation of a
  truth value \<open>v\<close>: \<^verbatim>\<open>atok->pass_samples[i] = v; if ( !pass_site &&
  atok->pass_samples[i] ) pass_site = 1;\<close> and the same with the test
  \<^verbatim>\<open>if ( atok->pass_samples[i] )\<close>.\<close>

definition mask_set :: "err + bool \<Rightarrow> nat \<Rightarrow> nat list \<times> int \<Rightarrow> err + (nat list \<times> int)" where
  "mask_set c i s =
     (case s of (ps, psite) \<Rightarrow>
        bindE c (\<lambda>v. bindE (wr ps i (b2u v))
          (\<lambda>ps'. Inr (ps', if psite = 0 \<and> v then 1 else psite))))"

definition mask_set_any :: "err + bool \<Rightarrow> nat \<Rightarrow> nat list \<times> int \<Rightarrow> err + (nat list \<times> int)" where
  "mask_set_any c i s =
     (case s of (ps, psite) \<Rightarrow>
        bindE c (\<lambda>v. bindE (wr ps i (b2u v)) (\<lambda>ps'. Inr (ps', if v then 1 else psite))))"

text \<open>The bodies of the three loops of \<^verbatim>\<open>vector_logic_and\<close>: two vectors, a site and a
  vector, a vector and a site.\<close>

definition and_vv_body :: "token \<Rightarrow> nat \<Rightarrow> nat list \<times> int \<Rightarrow> err + (nat list \<times> int)" where
  "and_vv_body btok i s = mask_set (c_and (rdb (fst s) i) (rdb (pass_samples btok) i)) i s"

definition and_sv_body :: "token \<Rightarrow> token \<Rightarrow> nat \<Rightarrow> nat list \<times> int \<Rightarrow> err + (nat list \<times> int)" where
  "and_sv_body atok btok i s =
     mask_set (c_and (Inr (pass_site atok \<noteq> 0)) (rdb (pass_samples btok) i)) i s"

definition and_vs_body :: "token \<Rightarrow> nat \<Rightarrow> nat list \<times> int \<Rightarrow> err + (nat list \<times> int)" where
  "and_vs_body btok i s = mask_set (c_and (rdb (fst s) i) (Inr (pass_site btok \<noteq> 0))) i s"

text \<open>The result is the token \<^verbatim>\<open>atok\<close> as the call leaves it, and the value returned.\<close>

definition vector_logic_and :: "token \<Rightarrow> token \<Rightarrow> err + (token \<times> int)" where
  "vector_logic_and atok btok =
     (if nvalues atok = 0 \<or> nvalues btok = 0
      then Inr (atok\<lparr>nvalues := 0, nsamples := 0\<rparr>, 0)
      else if nsamples atok = 0 \<and> nsamples btok = 0
      then Inr (atok, b2i (pass_site atok \<noteq> 0 \<and> pass_site btok \<noteq> 0))
      else if nsamples atok \<noteq> 0 \<and> nsamples btok \<noteq> 0
      then bindE (for_up (nsamples atok) (and_vv_body btok) (pass_samples atok, 0))
             (\<lambda>s. Inr (atok\<lparr>pass_samples := fst s\<rparr>, snd s))
      else if nsamples btok \<noteq> 0
      then bindE (for_up (nsamples btok) (and_sv_body atok btok) (pass_samples atok, 0))
             (\<lambda>s. Inr (atok\<lparr>pass_samples := fst s, nsamples := nsamples btok\<rparr>, snd s))
      else bindE (for_up (nvalues atok) (and_vs_body btok) (pass_samples atok, 0))
             (\<lambda>s. Inr (atok\<lparr>pass_samples := fst s\<rparr>, snd s)))"

text \<open>The bodies of the loops of \<^verbatim>\<open>vector_logic_or\<close>. With a missing \<^verbatim>\<open>atok\<close> the mask
  of \<^verbatim>\<open>btok\<close> is copied. For a site and a vector, \<^verbatim>\<open>TOK_OR\<close> copies the mask of the
  vector and tests \<^verbatim>\<open>atok->pass_site || atok->pass_samples[i]\<close>, the other operator
  stores \<^verbatim>\<open>atok->pass_site || btok->pass_samples[i]\<close>. For a vector and a site,
  \<^verbatim>\<open>TOK_OR\<close> stores nothing and tests \<^verbatim>\<open>btok->pass_site || atok->pass_samples[i]\<close>, the
  other operator stores \<^verbatim>\<open>atok->pass_samples[i] || btok->pass_site\<close>.\<close>

definition or_copy_body :: "token \<Rightarrow> nat \<Rightarrow> nat list \<Rightarrow> err + nat list" where
  "or_copy_body btok i ps = bindE (rd (pass_samples btok) i) (\<lambda>y. wr ps i y)"

definition or_sv_body :: "token \<Rightarrow> token \<Rightarrow> nat \<Rightarrow> nat list \<times> int \<Rightarrow> err + (nat list \<times> int)" where
  "or_sv_body atok btok i s =
     (case s of (ps, psite) \<Rightarrow>
        bindE (rd (pass_samples btok) i)
          (\<lambda>y. bindE (wr ps i y)
             (\<lambda>ps'. bindE (c_or (Inr (pass_site atok \<noteq> 0)) (rdb ps' i))
                (\<lambda>c. Inr (ps', if c then 1 else psite)))))"

definition or_vec_sv_body :: "token \<Rightarrow> token \<Rightarrow> nat \<Rightarrow> nat list \<times> int \<Rightarrow> err + (nat list \<times> int)" where
  "or_vec_sv_body atok btok i s =
     mask_set_any (c_or (Inr (pass_site atok \<noteq> 0)) (rdb (pass_samples btok) i)) i s"

definition or_vs_body :: "token \<Rightarrow> nat \<Rightarrow> nat list \<times> int \<Rightarrow> err + (nat list \<times> int)" where
  "or_vs_body btok i s =
     (case s of (ps, psite) \<Rightarrow>
        bindE (c_or (Inr (pass_site btok \<noteq> 0)) (rdb ps i))
          (\<lambda>c. Inr (ps, if c then 1 else psite)))"

definition or_vec_vs_body :: "token \<Rightarrow> nat \<Rightarrow> nat list \<times> int \<Rightarrow> err + (nat list \<times> int)" where
  "or_vec_vs_body btok i s =
     mask_set_any (c_or (rdb (fst s) i) (Inr (pass_site btok \<noteq> 0))) i s"

definition or_vv_body :: "token \<Rightarrow> nat \<Rightarrow> nat list \<times> int \<Rightarrow> err + (nat list \<times> int)" where
  "or_vv_body btok i s = mask_set (c_or (rdb (fst s) i) (rdb (pass_samples btok) i)) i s"

definition vector_logic_or :: "token \<Rightarrow> token \<Rightarrow> tok_kind \<Rightarrow> err + (token \<times> int)" where
  "vector_logic_or atok btok or_type =
     (if nvalues atok = 0 \<and> nvalues btok = 0
      then Inr (atok\<lparr>nvalues := 0, nsamples := 0\<rparr>, 0)
      else if nvalues atok = 0
      then bindE (for_up (nsamples btok) (or_copy_body btok) (pass_samples atok))
             (\<lambda>ps. Inr (atok\<lparr>pass_samples := ps, nsamples := nsamples btok\<rparr>, pass_site btok))
      else if nvalues btok = 0
      then Inr (atok, pass_site atok)
      else if nsamples atok = 0 \<and> nsamples btok = 0
      then Inr (atok, b2i (pass_site atok \<noteq> 0 \<or> pass_site btok \<noteq> 0))
      else if nsamples atok = 0
      then bindE
             (if or_type = TOK_OR
              then for_up (nsamples btok) (or_sv_body atok btok) (pass_samples atok, 0)
              else for_up (nsamples btok) (or_vec_sv_body atok btok) (pass_samples atok, 0))
             (\<lambda>s. Inr (atok\<lparr>pass_samples := fst s, nsamples := nsamples btok\<rparr>, snd s))
      else if nsamples btok = 0
      then bindE
             (if or_type = TOK_OR
              then for_up (nsamples atok) (or_vs_body btok) (pass_samples atok, 0)
              else for_up (nsamples atok) (or_vec_vs_body btok) (pass_samples atok, 0))
             (\<lambda>s. Inr (atok\<lparr>pass_samples := fst s\<rparr>, snd s))
      else bindE (for_up (nsamples atok) (or_vv_body btok) (pass_samples atok, 0))
             (\<lambda>s. Inr (atok\<lparr>pass_samples := fst s\<rparr>, snd s)))"

subsection \<open>Numeric comparison and arithmetic\<close>

text \<open>The state of the loops of \<^verbatim>\<open>CMP_VECTORS\<close> is the mask, \<^verbatim>\<open>has_values\<close> and
  \<^verbatim>\<open>pass_site\<close>. The statement \<^verbatim>\<open>if ( x CMP_OP y ) { pass_samples[i] = 1; pass_site
  = 1; } else pass_samples[i] = 0;\<close> after \<^verbatim>\<open>has_values = 1\<close>, and the statement
  \<^verbatim>\<open>{ pass_samples[i] = 0; continue; }\<close>.\<close>

type_synonym cmp_state = "nat list \<times> bool \<times> int"

definition cmp_set :: "bool \<Rightarrow> nat \<Rightarrow> cmp_state \<Rightarrow> err + cmp_state" where
  "cmp_set c i s =
     (case s of (ps, hv, psite) \<Rightarrow>
        if c then bindE (wr ps i 1) (\<lambda>ps'. Inr (ps', True, 1))
        else bindE (wr ps i 0) (\<lambda>ps'. Inr (ps', True, psite)))"

definition cmp_skip :: "nat \<Rightarrow> cmp_state \<Rightarrow> err + cmp_state" where
  "cmp_skip i s = (case s of (ps, hv, psite) \<Rightarrow> bindE (wr ps i 0) (\<lambda>ps'. Inr (ps', hv, psite)))"

text \<open>The bodies of the three loops: two vectors, a vector and a scalar, a scalar and a
  vector.\<close>

definition cmp_vv_body ::
  "token \<Rightarrow> token \<Rightarrow> (fval \<Rightarrow> fval \<Rightarrow> bool) \<Rightarrow> nat \<Rightarrow> cmp_state \<Rightarrow> err + cmp_state" where
  "cmp_vv_body atok btok CMP_OP i s =
     bindE (rd (tvalues atok) i)
       (\<lambda>x. if bcf_float_is_missing x then cmp_skip i s
            else bindE (rd (tvalues btok) i)
              (\<lambda>y. if bcf_float_is_missing y then cmp_skip i s
                   else cmp_set (CMP_OP x y) i s))"

definition cmp_vs_body ::
  "token \<Rightarrow> token \<Rightarrow> (fval \<Rightarrow> fval \<Rightarrow> bool) \<Rightarrow> nat \<Rightarrow> cmp_state \<Rightarrow> err + cmp_state" where
  "cmp_vs_body atok btok CMP_OP i s =
     bindE (rd (tvalues atok) i)
       (\<lambda>x. if bcf_float_is_missing x then cmp_skip i s
            else bindE (rd (tvalues btok) 0) (\<lambda>y. cmp_set (CMP_OP x y) i s))"

definition cmp_sv_body ::
  "token \<Rightarrow> token \<Rightarrow> (fval \<Rightarrow> fval \<Rightarrow> bool) \<Rightarrow> nat \<Rightarrow> cmp_state \<Rightarrow> err + cmp_state" where
  "cmp_sv_body atok btok CMP_OP i s =
     bindE (rd (tvalues btok) i)
       (\<lambda>y. if bcf_float_is_missing y then cmp_skip i s
            else bindE (rd (tvalues atok) 0) (\<lambda>x. cmp_set (CMP_OP x y) i s))"

text \<open>The macro \<^verbatim>\<open>CMP_VECTORS(atok,btok,CMP_OP,ret)\<close>: the result is \<^verbatim>\<open>atok\<close> and
  \<^verbatim>\<open>ret\<close>.\<close>

definition CMP_VECTORS :: "token \<Rightarrow> token \<Rightarrow> (fval \<Rightarrow> fval \<Rightarrow> bool) \<Rightarrow> err + (token \<times> int)" where
  "CMP_VECTORS atok btok CMP_OP =
     (if nvalues atok = 0 \<or> nvalues btok = 0
      then Inr (atok\<lparr>nvalues := 0, nsamples := 0\<rparr>, 0)
      else if nsamples atok \<noteq> 0 \<and> nsamples btok \<noteq> 0
      then bindE (for_up (nsamples atok) (cmp_vv_body atok btok CMP_OP) (pass_samples atok, False, 0))
             (\<lambda>(ps, hv, psite).
                Inr (atok\<lparr>pass_samples := ps, nvalues := (if hv then nvalues atok else 0)\<rparr>, psite))
      else if nsamples atok \<noteq> 0
      then bindE (rd (tvalues btok) 0)
             (\<lambda>b0. if bcf_float_is_missing b0
                   then Inr (atok\<lparr>nvalues := 0, nsamples := 0\<rparr>, 0)
                   else bindE (for_up (nsamples atok) (cmp_vs_body atok btok CMP_OP)
                                 (pass_samples atok, False, 0))
                          (\<lambda>(ps, hv, psite).
                             Inr (atok\<lparr>pass_samples := ps,
                                        nvalues := (if hv then nvalues atok else 0)\<rparr>, psite)))
      else if nsamples btok \<noteq> 0
      then bindE (rd (tvalues atok) 0)
             (\<lambda>a0. if bcf_float_is_missing a0
                   then Inr (atok\<lparr>nvalues := 0, nsamples := 0\<rparr>, 0)
                   else bindE (for_up (nsamples btok) (cmp_sv_body atok btok CMP_OP)
                                 (pass_samples atok, False, 0))
                          (\<lambda>(ps, hv, psite).
                             Inr (atok\<lparr>pass_samples := ps,
                                        nvalues := (if hv then nvalues btok else 0),
                                        nsamples := nsamples btok\<rparr>, psite)))
      else bindE (rd (tvalues atok) 0)
             (\<lambda>a0. bindE (c_or (Inr (bcf_float_is_missing a0))
                             (bindE (rd (tvalues btok) 0) (\<lambda>b0. Inr (bcf_float_is_missing b0))))
                (\<lambda>m. if m then Inr (atok\<lparr>nvalues := 0, nsamples := 0\<rparr>, 0)
                     else bindE (rd (tvalues btok) 0)
                            (\<lambda>b0. Inr (atok, if CMP_OP a0 b0 then 1 else 0)))))"

text \<open>The state of the loops of \<^verbatim>\<open>VECTOR_ARITHMETICS\<close> is the buffer \<^verbatim>\<open>atok->values\<close>
  and \<^verbatim>\<open>has_values\<close>. The bodies of the three loops: two vectors or two scalars, a
  scalar and a vector (where \<^verbatim>\<open>atok->values[0]\<close> is read in every turn, also after
  the first turn has written it), a vector and a scalar.\<close>

type_synonym ar_state = "fval list \<times> bool"

definition ar_same_body ::
  "token \<Rightarrow> (fval \<Rightarrow> fval \<Rightarrow> fval) \<Rightarrow> nat \<Rightarrow> ar_state \<Rightarrow> err + ar_state" where
  "ar_same_body btok AOP i s =
     (case s of (av, hv) \<Rightarrow>
        bindE (rd av i)
          (\<lambda>x. if bcf_float_is_missing x then Inr (av, hv)
               else bindE (rd (tvalues btok) i)
                 (\<lambda>y. if bcf_float_is_missing y
                      then bindE (wr av i FMissing) (\<lambda>av'. Inr (av', hv))
                      else bindE (wr av i (AOP x y)) (\<lambda>av'. Inr (av', True)))))"

definition ar_sv_body ::
  "token \<Rightarrow> (fval \<Rightarrow> fval \<Rightarrow> fval) \<Rightarrow> nat \<Rightarrow> ar_state \<Rightarrow> err + ar_state" where
  "ar_sv_body btok AOP i s =
     (case s of (av, hv) \<Rightarrow>
        bindE (rd av 0)
          (\<lambda>x. bindE (c_or (Inr (bcf_float_is_missing x))
                        (bindE (rd (tvalues btok) i) (\<lambda>y. Inr (bcf_float_is_missing y))))
             (\<lambda>m. if m then bindE (wr_ext av i FMissing) (\<lambda>av'. Inr (av', hv))
                  else bindE (rd (tvalues btok) i)
                         (\<lambda>y. bindE (wr_ext av i (AOP x y)) (\<lambda>av'. Inr (av', True))))))"

definition ar_vs_body ::
  "token \<Rightarrow> (fval \<Rightarrow> fval \<Rightarrow> fval) \<Rightarrow> nat \<Rightarrow> ar_state \<Rightarrow> err + ar_state" where
  "ar_vs_body btok AOP i s =
     (case s of (av, hv) \<Rightarrow>
        bindE (rd av i)
          (\<lambda>x. bindE (c_or (Inr (bcf_float_is_missing x))
                        (bindE (rd (tvalues btok) 0) (\<lambda>y. Inr (bcf_float_is_missing y))))
             (\<lambda>m. if m then bindE (wr av i FMissing) (\<lambda>av'. Inr (av', hv))
                  else bindE (rd (tvalues btok) 0)
                         (\<lambda>y. bindE (wr av i (AOP x y)) (\<lambda>av'. Inr (av', True))))))"

text \<open>The macro \<^verbatim>\<open>VECTOR_ARITHMETICS(atok,btok,AOP)\<close>.\<close>

definition VECTOR_ARITHMETICS :: "token \<Rightarrow> token \<Rightarrow> (fval \<Rightarrow> fval \<Rightarrow> fval) \<Rightarrow> err + token" where
  "VECTOR_ARITHMETICS atok btok AOP =
     bindE
       (if nvalues atok = 0 \<or> nvalues btok = 0
        then Inr (atok\<lparr>nvalues := 0, nsamples := 0\<rparr>, False)
        else if (nsamples atok \<noteq> 0 \<and> nsamples btok \<noteq> 0) \<or> (nsamples atok = 0 \<and> nsamples btok = 0)
        then bindE (for_up (nvalues atok) (ar_same_body btok AOP) (tvalues atok, False))
               (\<lambda>s. Inr (atok\<lparr>tvalues := fst s\<rparr>, snd s))
        else if nsamples btok \<noteq> 0
        then bindE (for_up (nvalues btok) (ar_sv_body btok AOP) (tvalues atok, False))
               (\<lambda>s. Inr (atok\<lparr>tvalues := fst s, nvalues := nvalues btok,
                               nsamples := nsamples btok\<rparr>, snd s))
        else if nsamples atok \<noteq> 0
        then bindE (for_up (nvalues atok) (ar_vs_body btok AOP) (tvalues atok, False))
               (\<lambda>s. Inr (atok\<lparr>tvalues := fst s\<rparr>, snd s))
        else Inr (atok, False))
       (\<lambda>r. Inr (if snd r then fst r else (fst r)\<lparr>nvalues := 0, nsamples := 0\<rparr>))"

subsection \<open>String comparison\<close>

text \<open>\<^verbatim>\<open>while ( a<aend && *a ) a++;\<close> with \<open>n\<close> bytes left before \<^verbatim>\<open>aend\<close>, and
  \<^verbatim>\<open>while ( astr<aend && !*astr ) astr++;\<close>; positions are offsets into the buffer.\<close>

primrec scan_str :: "string \<Rightarrow> nat \<Rightarrow> nat \<Rightarrow> err + nat" where
  "scan_str buf 0 a = Inr a"
| "scan_str buf (Suc n) a =
     bindE (rd buf a) (\<lambda>c. if c \<noteq> CHR 0x00 then scan_str buf n (Suc a) else Inr a)"

primrec skip_nul :: "string \<Rightarrow> nat \<Rightarrow> nat \<Rightarrow> err + nat" where
  "skip_nul buf 0 a = Inr a"
| "skip_nul buf (Suc n) a =
     bindE (rd buf a) (\<lambda>c. if c = CHR 0x00 then skip_nul buf n (Suc a) else Inr a)"

text \<open>\<^verbatim>\<open>strncmp(astr,bstr,n)\<close> for \<open>n\<close> bytes that hold no NUL (the callers have scanned
  them): 0 when the bytes agree, else the difference of the first two bytes that differ,
  read as \<^verbatim>\<open>unsigned char\<close> (the C standard fixes the sign of the result only; the
  difference is what the byte-wise implementations return).\<close>

fun strncmp_bytes :: "string \<Rightarrow> string \<Rightarrow> int" where
  "strncmp_bytes (x # xs) (y # ys) =
     (if x = y then strncmp_bytes xs ys else int (of_char x) - int (of_char y))"
| "strncmp_bytes [] ys = 0"
| "strncmp_bytes (x # xs) [] = 0"

definition strncmp :: "string \<Rightarrow> nat \<Rightarrow> string \<Rightarrow> nat \<Rightarrow> nat \<Rightarrow> int" where
  "strncmp abuf astr bbuf bstr n = strncmp_bytes (take n (drop astr abuf)) (take n (drop bstr bbuf))"

text \<open>The byte stored in \<^verbatim>\<open>pass_samples[i]\<close> by the comparison of one pair of strings,
  the first of length \<open>la\<close> from \<open>astr\<close>, the second of length \<open>lb\<close> from \<open>bstr\<close>: for
  \<^verbatim>\<open>TOK_EQ\<close> it is \<^verbatim>\<open>!strncmp(...)\<close>, for \<^verbatim>\<open>TOK_NE\<close> the \<^verbatim>\<open>int\<close> that \<^verbatim>\<open>strncmp\<close> returns,
  converted to \<^verbatim>\<open>uint8_t\<close>. The statements \<^verbatim>\<open>atok->pass_samples[i] = v; if ( !pass_site
  && atok->pass_samples[i] ) pass_site = 1;\<close> for a byte \<open>v\<close>.\<close>

definition str_pass :: "tok_kind \<Rightarrow> string \<Rightarrow> nat \<Rightarrow> nat \<Rightarrow> string \<Rightarrow> nat \<Rightarrow> nat \<Rightarrow> nat" where
  "str_pass logic abuf astr la bbuf bstr lb =
     (if la \<noteq> lb then (if logic = TOK_EQ then 0 else 1)
      else if logic = TOK_EQ then b2u (strncmp abuf astr bbuf bstr la = 0)
      else u8 (strncmp abuf astr bbuf bstr la))"

definition mask_store :: "nat \<Rightarrow> nat \<Rightarrow> nat list \<times> int \<Rightarrow> err + (nat list \<times> int)" where
  "mask_store v i s =
     (case s of (ps, psite) \<Rightarrow>
        bindE (wr ps i v) (\<lambda>ps'. Inr (ps', if psite = 0 \<and> v \<noteq> 0 then 1 else psite)))"

text \<open>The bodies of the two loops of \<^verbatim>\<open>cmp_vector_strings\<close>. The state is the mask,
  \<^verbatim>\<open>pass_site\<close> and the positions \<^verbatim>\<open>astr\<close> and \<^verbatim>\<open>bstr\<close>, for the second loop the
  position \<^verbatim>\<open>ystr\<close>; there \<open>x\<close> is the length of the string of \<^verbatim>\<open>xtok\<close>.\<close>

definition str_vv_body ::
  "token \<Rightarrow> token \<Rightarrow> tok_kind \<Rightarrow> nat \<Rightarrow> (nat list \<times> int) \<times> nat \<times> nat
   \<Rightarrow> err + ((nat list \<times> int) \<times> nat \<times> nat)" where
  "str_vv_body atok btok logic i s =
     (case s of (m, astr, bstr) \<Rightarrow>
        bindE (rd (tvalues atok) 0) (\<lambda>wa.
        bindE (scan_str (str_value atok) (nat (f2int wa)) astr) (\<lambda>a.
        bindE (rd (tvalues btok) 0) (\<lambda>wb.
        bindE (scan_str (str_value btok) (nat (f2int wb)) bstr) (\<lambda>b.
        bindE (mask_store (str_pass logic (str_value atok) astr (a - astr)
                             (str_value btok) bstr (b - bstr)) i m) (\<lambda>m'.
        bindE (skip_nul (str_value atok) (nat (f2int wa)) astr) (\<lambda>astr'.
        bindE (skip_nul (str_value btok) (nat (f2int wb)) bstr) (\<lambda>bstr'.
        Inr (m', astr', bstr')))))))))"

definition str_sv_body ::
  "token \<Rightarrow> token \<Rightarrow> nat \<Rightarrow> tok_kind \<Rightarrow> nat \<Rightarrow> (nat list \<times> int) \<times> nat
   \<Rightarrow> err + ((nat list \<times> int) \<times> nat)" where
  "str_sv_body xtok ytok x logic i s =
     (case s of (m, ystr) \<Rightarrow>
        bindE (rd (tvalues ytok) 0) (\<lambda>wy.
        bindE (scan_str (str_value ytok) (nat (f2int wy)) ystr) (\<lambda>y.
        bindE (mask_store (str_pass logic (str_value xtok) 0 x
                             (str_value ytok) ystr (y - ystr)) i m) (\<lambda>m'.
        bindE (skip_nul (str_value ytok) (nat (f2int wy)) ystr) (\<lambda>ystr'.
        Inr (m', ystr'))))))"

definition cmp_vector_strings :: "token \<Rightarrow> token \<Rightarrow> tok_kind \<Rightarrow> err + (token \<times> int)" where
  "cmp_vector_strings atok btok logic =
     (if nvalues atok = 0 then Inr (atok\<lparr>nsamples := 0\<rparr>, 0)
      else if nvalues btok = 0 then Inr (atok\<lparr>nsamples := 0, nvalues := 0\<rparr>, 0)
      else if nvalues atok = nvalues btok
      then bindE (for_up (nvalues atok) (str_vv_body atok btok logic)
                    ((pass_samples atok, 0), 0, 0))
             (\<lambda>s. Inr (atok\<lparr>pass_samples := fst (fst s),
                              nsamples := (if nsamples atok = 0 then nsamples btok
                                           else nsamples atok)\<rparr>,
                        snd (fst s)))
      else if nsamples atok = 0 \<or> nsamples btok = 0
      then (let xtok = (if nsamples atok = 0 then atok else btok);
                ytok = (if nsamples atok = 0 then btok else atok) in
            bindE (rd (tvalues xtok) 0) (\<lambda>wx.
            bindE (scan_str (str_value xtok) (nat (f2int wx)) 0) (\<lambda>x.
            bindE (for_up (nvalues ytok) (str_sv_body xtok ytok x logic)
                     ((pass_samples atok, 0), 0))
              (\<lambda>s. Inr (if nsamples atok = 0
                         then atok\<lparr>pass_samples := fst (fst s), nvalues := nsamples btok,
                                   nsamples := nsamples btok\<rparr>
                         else atok\<lparr>pass_samples := fst (fst s)\<rparr>,
                         snd (fst s))))))
      else Inl Fatal)"

subsection \<open>The header and the record\<close>

datatype hl_t = BCF_HL_FLT | BCF_HL_INFO | BCF_HL_FMT

datatype ht_t = BCF_HT_FLAG | BCF_HT_INT | BCF_HT_REAL | BCF_HT_STR

text \<open>What \<^verbatim>\<open>filter.c\<close> asks of the header \<^verbatim>\<open>bcf_hdr_t\<close> of htslib: the id of a name in
  the dictionary \<^verbatim>\<open>BCF_DT_ID\<close> (negative when the name is not there), whether an id is
  declared as a FILTER, INFO or FORMAT line, its Number and Type there, and the number
  of samples.\<close>

record bcf_hdr_t =
  bcf_hdr_id2int :: "string \<Rightarrow> int"
  bcf_hdr_idinfo_exists :: "hl_t \<Rightarrow> int \<Rightarrow> bool"
  bcf_hdr_id2number :: "hl_t \<Rightarrow> int \<Rightarrow> int"
  bcf_hdr_id2type :: "hl_t \<Rightarrow> int \<Rightarrow> ht_t"
  bcf_hdr_nsamples :: nat

datatype bt_t = BCF_BT_NULL | BCF_BT_INT8 | BCF_BT_INT16 | BCF_BT_INT32 | BCF_BT_FLOAT | BCF_BT_CHAR

text \<open>\<^verbatim>\<open>bcf_info_t\<close>: the array \<^verbatim>\<open>vptr\<close> leads to is \<open>vptr_i\<close>, \<open>vptr_f\<close> or \<open>vptr_c\<close>
  according to the type.\<close>

record bcf_info_t =
  info_key :: int
  info_type :: bt_t
  info_len :: int
  v1_i :: int
  v1_f :: fval
  vptr_i :: "int list"
  vptr_f :: "fval list"
  vptr_c :: string

text \<open>The unpacked record \<^verbatim>\<open>bcf1_t\<close>: \<^verbatim>\<open>n_info\<close> and \<^verbatim>\<open>d.n_flt\<close> are the lengths
  of \<open>d_info\<close> and \<open>d_flt\<close>. The readers of htslib are functions of the tag:
  \<^verbatim>\<open>bcf_get_format_int32\<close> and \<^verbatim>\<open>bcf_get_format_float\<close> give the array read, whose
  length they return, or \<open>None\<close> when they return a negative value;
  \<^verbatim>\<open>bcf_get_format_char\<close> gives the value it leaves in \<^verbatim>\<open>ndim\<close> (0 when the tag is not
  in the record) and the bytes read.\<close>

record bcf1_t =
  qual :: fval
  bcf_get_variant_types :: int
  d_info :: "bcf_info_t list"
  d_flt :: "int list"
  bcf_get_format_int32 :: "string \<Rightarrow> int list option"
  bcf_get_format_float :: "string \<Rightarrow> fval list option"
  bcf_get_format_char :: "string \<Rightarrow> nat \<times> string"

datatype un_t = BCF_UN_STR | BCF_UN_FLT | BCF_UN_INFO | BCF_UN_FMT

text \<open>\<^verbatim>\<open>filter_t\<close>: \<open>max_unpack\<close> is the set of the bits set; the evaluation stack is
  an argument of the evaluator.\<close>

record filter_t =
  filter_hdr :: bcf_hdr_t
  filter_str :: string
  filters :: "token list"
  max_unpack :: "un_t set"
  filter_nsamples :: nat

subsection \<open>The %FILTER comparator\<close>

text \<open>\<^verbatim>\<open>for (i=0; i<line->d.n_flt; i++) if ( atok->hdr_id==line->d.flt[i] ) return r;\<close>:
  whether the loop returns.\<close>

primrec flt_match :: "int \<Rightarrow> int list \<Rightarrow> bool" where
  "flt_match h [] = False"
| "flt_match h (f # fs) = (if h = f then True else flt_match h fs)"

definition filters_cmp_filter :: "token \<Rightarrow> token \<Rightarrow> tok_kind \<Rightarrow> bcf1_t \<Rightarrow> int" where
  "filters_cmp_filter atok btok op_type line =
     (if op_type = TOK_NE
      then (if length (d_flt line) = 0
            then (if hdr_id atok = -1 then 0 else 1)
            else if flt_match (hdr_id atok) (d_flt line) then 0 else 1)
      else (if length (d_flt line) = 0
            then (if hdr_id atok = -1 then 1 else 0)
            else if flt_match (hdr_id atok) (d_flt line) then 1 else 0))"

subsection \<open>Setters\<close>

definition filters_set_qual_impl :: "bcf1_t \<Rightarrow> token \<Rightarrow> err + token" where
  "filters_set_qual_impl line tok =
     (if bcf_float_is_missing (qual line) then Inr (tok\<lparr>nvalues := 0\<rparr>)
      else bindE (wr_ext (tvalues tok) 0 (qual line))
             (\<lambda>vs. Inr (tok\<lparr>tvalues := vs, nvalues := 1\<rparr>)))"

definition filters_set_type_impl :: "bcf1_t \<Rightarrow> token \<Rightarrow> err + token" where
  "filters_set_type_impl line tok =
     bindE (wr_ext (tvalues tok) 0 (FNum (of_int (bcf_get_variant_types line))))
       (\<lambda>vs. Inr (tok\<lparr>tvalues := vs, nvalues := 1\<rparr>))"

text \<open>\<^verbatim>\<open>for (i=0; i<line->n_info; i++) if ( line->d.info[i].key == id ) break;\<close>: the
  entry found, or \<open>None\<close> when \<^verbatim>\<open>i==line->n_info\<close>.\<close>

definition find_info :: "bcf1_t \<Rightarrow> int \<Rightarrow> bcf_info_t option" where
  "find_info line h = List.find (\<lambda>x. info_key x = h) (d_info line)"

definition filters_set_info_impl :: "bcf1_t \<Rightarrow> token \<Rightarrow> err + token" where
  "filters_set_info_impl line tok =
     (if hdr_id tok < 0 then Inl Fatal
      else case find_info line (hdr_id tok) of
        None \<Rightarrow> Inr (tok\<lparr>nvalues := 0\<rparr>)
      | Some info \<Rightarrow>
          if info_type info = BCF_BT_CHAR
          then bindE (wr_ext (tvalues tok) 0 (FNum (of_int (info_len info))))
                 (\<lambda>vs. Inr (tok\<lparr>str_value := vptr_c info, tvalues := vs, nvalues := 1\<rparr>))
          else if info_type info = BCF_BT_FLOAT
          then bindE (wr_ext (tvalues tok) 0 (v1_f info))
                 (\<lambda>vs. Inr (tok\<lparr>tvalues := vs, str_value := [], nvalues := 1\<rparr>))
          else bindE (wr_ext (tvalues tok) 0 (FNum (of_int (v1_i info))))
                 (\<lambda>vs. Inr (tok\<lparr>tvalues := vs, str_value := [], nvalues := 1\<rparr>)))"

text \<open>What the memory \<^verbatim>\<open>value\<close> points to holds after \<^verbatim>\<open>bcf_get_info_value\<close>: nothing
  written, an \<^verbatim>\<open>int\<close> or a \<^verbatim>\<open>float\<close>.\<close>

datatype cval = Unset | IVal int | FVal fval

text \<open>The loop of the macro \<^verbatim>\<open>BRANCH\<close>, \<^verbatim>\<open>for (j=0; j<n; j++) if ( is_vector_end )
  return 0;\<close>: whether it returns.\<close>

primrec vend_before :: "('a \<Rightarrow> bool) \<Rightarrow> 'a list \<Rightarrow> nat \<Rightarrow> err + bool" where
  "vend_before is_vector_end p 0 = Inr False"
| "vend_before is_vector_end p (Suc n) =
     bindE (vend_before is_vector_end p n)
       (\<lambda>found. if found then Inr True else bindE (rd p n) (\<lambda>x. Inr (is_vector_end x)))"

definition BRANCH ::
  "'a list \<Rightarrow> ('a \<Rightarrow> bool) \<Rightarrow> ('a \<Rightarrow> bool) \<Rightarrow> ('a \<Rightarrow> cval) \<Rightarrow> int \<Rightarrow> int \<Rightarrow> err + (int \<times> cval)" where
  "BRANCH p is_missing is_vector_end out ivec len =
     (let j = nat (min ivec len) in
      bindE (vend_before is_vector_end p j)
        (\<lambda>found. if found then Inr (0, Unset)
                 else bindE (rd p j)
                        (\<lambda>x. if is_missing x then Inr (0, Unset) else Inr (1, out x))))"

definition bcf_get_info_value :: "bcf1_t \<Rightarrow> int \<Rightarrow> int \<Rightarrow> err + (int \<times> cval)" where
  "bcf_get_info_value line info_id ivec =
     (case find_info line info_id of
        None \<Rightarrow> Inr (-1, Unset)
      | Some info \<Rightarrow>
          if info_len info = 1
          then (if info_type info = BCF_BT_FLOAT then Inr (1, FVal (v1_f info))
                else if info_type info = BCF_BT_INT8 \<or> info_type info = BCF_BT_INT16
                        \<or> info_type info = BCF_BT_INT32
                then Inr (1, IVal (v1_i info))
                else Inr (1, Unset))
          else case info_type info of
                 BCF_BT_INT8 \<Rightarrow>
                   BRANCH (vptr_i info) (\<lambda>x. x = -128) (\<lambda>x. x = -127) IVal ivec (info_len info)
               | BCF_BT_INT16 \<Rightarrow>
                   BRANCH (vptr_i info) (\<lambda>x. x = -32768) (\<lambda>x. x = -32767) IVal ivec (info_len info)
               | BCF_BT_INT32 \<Rightarrow>
                   BRANCH (vptr_i info) (\<lambda>x. x = -2147483648) (\<lambda>x. x = -2147483647) IVal ivec
                     (info_len info)
               | BCF_BT_FLOAT \<Rightarrow>
                   BRANCH (vptr_f info) bcf_float_is_missing bcf_float_is_vector_end FVal ivec
                     (info_len info)
               | _ \<Rightarrow> Inl Fatal)"

text \<open>The two subscripted setters read \<^verbatim>\<open>value\<close> as an \<^verbatim>\<open>int\<close> and as a \<^verbatim>\<open>float\<close>;
  reading what was not written, or was written as the other type, is a fault.\<close>

definition filters_set_info_int_impl :: "bcf1_t \<Rightarrow> token \<Rightarrow> err + token" where
  "filters_set_info_int_impl line tok =
     bindE (bcf_get_info_value line (hdr_id tok) (idx tok))
       (\<lambda>(ret, v). if ret \<le> 0 then Inr (tok\<lparr>nvalues := 0\<rparr>)
                   else case v of
                     IVal x \<Rightarrow> bindE (wr_ext (tvalues tok) 0 (FNum (of_int x)))
                                 (\<lambda>vs. Inr (tok\<lparr>tvalues := vs, nvalues := 1\<rparr>))
                   | _ \<Rightarrow> Inl MemFault)"

definition filters_set_info_float_impl :: "bcf1_t \<Rightarrow> token \<Rightarrow> err + token" where
  "filters_set_info_float_impl line tok =
     bindE (bcf_get_info_value line (hdr_id tok) (idx tok))
       (\<lambda>(ret, v). if ret \<le> 0 then Inr (tok\<lparr>nvalues := 0\<rparr>)
                   else case v of
                     FVal x \<Rightarrow> bindE (wr_ext (tvalues tok) 0 x)
                                 (\<lambda>vs. Inr (tok\<lparr>tvalues := vs, nvalues := 1\<rparr>))
                   | _ \<Rightarrow> Inl MemFault)"

definition filters_set_info_flag_impl :: "bcf1_t \<Rightarrow> token \<Rightarrow> err + token" where
  "filters_set_info_flag_impl line tok =
     bindE (wr_ext (tvalues tok) 0
              (FNum (case find_info line (hdr_id tok) of None \<Rightarrow> 0 | Some info \<Rightarrow> 1)))
       (\<lambda>vs. Inr (tok\<lparr>tvalues := vs, nvalues := 1\<rparr>))"

text \<open>The readers of FORMAT fields are called with \<^verbatim>\<open>tok->tag\<close>; a NULL tag is a fault.\<close>

definition filters_set_format_int_impl :: "bcf1_t \<Rightarrow> token \<Rightarrow> err + token" where
  "filters_set_format_int_impl line tok =
     (case tag tok of
        None \<Rightarrow> Inl MemFault
      | Some t \<Rightarrow>
          (case bcf_get_format_int32 line t of
             None \<Rightarrow> Inr (tok\<lparr>nvalues := 0, nsamples := 0\<rparr>)
           | Some tmpi \<Rightarrow>
               bindE (for_up (length tmpi)
                        (\<lambda>i (vs, is_missing).
                           bindE (rd tmpi i)
                             (\<lambda>x. if x = -2147483648 \<or> x = -2147483647
                                  then bindE (wr_ext vs i FMissing) (\<lambda>vs'. Inr (vs', is_missing))
                                  else bindE (wr_ext vs i (FNum (of_int x)))
                                         (\<lambda>vs'. Inr (vs', False))))
                        (tvalues tok, True))
                 (\<lambda>(vs, is_missing).
                    let n = (if is_missing then 0 else length tmpi) in
                    Inr (tok\<lparr>tvalues := vs, nvalues := n, nsamples := n\<rparr>))))"

definition filters_set_format_float_impl :: "bcf1_t \<Rightarrow> token \<Rightarrow> err + token" where
  "filters_set_format_float_impl line tok =
     (case tag tok of
        None \<Rightarrow> Inl MemFault
      | Some t \<Rightarrow>
          (case bcf_get_format_float line t of
             None \<Rightarrow> Inr (tok\<lparr>nvalues := 0, nsamples := 0\<rparr>)
           | Some vs \<Rightarrow>
               if length vs = 0 then Inr (tok\<lparr>nvalues := 0, nsamples := 0\<rparr>)
               else Inr (tok\<lparr>tvalues := vs @ drop (length vs) (tvalues tok),
                              nvalues := length vs\<rparr>)))"

definition filters_set_format_string_impl :: "filter_t \<Rightarrow> bcf1_t \<Rightarrow> token \<Rightarrow> err + token" where
  "filters_set_format_string_impl flt line tok =
     (case tag tok of
        None \<Rightarrow> Inl MemFault
      | Some t \<Rightarrow>
          (case bcf_get_format_char line t of
             (ndim, bytes) \<Rightarrow>
               if ndim = 0 then Inr (tok\<lparr>nvalues := 0, nsamples := 0\<rparr>)
               else bindE (wr_ext (tvalues tok) 0 (FNum (of_nat ndim)))
                      (\<lambda>vs. Inr (tok\<lparr>str_value := bytes, tvalues := vs,
                                     nvalues := bcf_hdr_nsamples (filter_hdr flt),
                                     nsamples := bcf_hdr_nsamples (filter_hdr flt)\<rparr>))))"

text \<open>The call \<^verbatim>\<open>setter(flt, line, tok)\<close> through the pointer; a NULL pointer is a fault.\<close>

definition call_setter :: "setter_t \<Rightarrow> filter_t \<Rightarrow> bcf1_t \<Rightarrow> token \<Rightarrow> err + token" where
  "call_setter s flt line tok =
     (case s of
        NoSetter \<Rightarrow> Inl MemFault
      | filters_set_qual \<Rightarrow> filters_set_qual_impl line tok
      | filters_set_type \<Rightarrow> filters_set_type_impl line tok
      | filters_set_info \<Rightarrow> filters_set_info_impl line tok
      | filters_set_info_int \<Rightarrow> filters_set_info_int_impl line tok
      | filters_set_info_float \<Rightarrow> filters_set_info_float_impl line tok
      | filters_set_info_flag \<Rightarrow> filters_set_info_flag_impl line tok
      | filters_set_format_int \<Rightarrow> filters_set_format_int_impl line tok
      | filters_set_format_float \<Rightarrow> filters_set_format_float_impl line tok
      | filters_set_format_string \<Rightarrow> filters_set_format_string_impl flt line tok
      | set_max_fn \<Rightarrow> set_max tok
      | set_min_fn \<Rightarrow> set_min tok
      | set_avg_fn \<Rightarrow> set_avg tok)"

subsection \<open>The evaluator\<close>

text \<open>The end of the loop body of \<^verbatim>\<open>filter_test\<close>, from \<^verbatim>\<open>int is_true = 0;\<close> on, for
  the operator \<open>ty\<close> and the operands \<open>a\<close> = \<^verbatim>\<open>flt_stack[nstack-2]\<close> and \<open>b\<close> =
  \<^verbatim>\<open>flt_stack[nstack-1]\<close>: the result is \<^verbatim>\<open>flt_stack[nstack-2]\<close> and
  \<^verbatim>\<open>is_true\<close>.\<close>

definition filter_test_compare :: "bcf1_t \<Rightarrow> tok_kind \<Rightarrow> token \<Rightarrow> token \<Rightarrow> err + (token \<times> int)" where
  "filter_test_compare line ty a b =
     (let is_str = is_str b + is_str a in
      if nvalues b = 0 \<or> nvalues a = 0
      then Inr (a\<lparr>nsamples := 0, nvalues := 0\<rparr>, 0)
      else if ty = TOK_EQ
      then (if comparator b then Inr (a, filters_cmp_filter b a TOK_EQ line)
            else if comparator a then Inr (a, filters_cmp_filter a b TOK_EQ line)
            else if is_str = 2 then cmp_vector_strings a b TOK_EQ
            else if is_str = 1 then Inl Fatal
            else CMP_VECTORS a b f_eq)
      else if ty = TOK_NE
      then (if comparator b then Inr (a, filters_cmp_filter b a TOK_NE line)
            else if comparator a then Inr (a, filters_cmp_filter a b TOK_NE line)
            else if is_str = 2 then cmp_vector_strings a b TOK_NE
            else if is_str = 1 then Inl Fatal
            else CMP_VECTORS a b f_ne)
      else if is_str > 0 then Inl Fatal
      else if ty = TOK_LE then CMP_VECTORS a b f_le
      else if ty = TOK_LT then CMP_VECTORS a b f_lt
      else if ty = TOK_BT then CMP_VECTORS a b f_gt
      else if ty = TOK_BE then CMP_VECTORS a b f_ge
      else Inl Fatal)"

text \<open>The part of the loop body of \<^verbatim>\<open>filter_test\<close> after the test \<^verbatim>\<open>nstack<2\<close>: the
  result is \<^verbatim>\<open>flt_stack[nstack-2]\<close> as the body leaves it.\<close>

definition filter_test_binary :: "bcf1_t \<Rightarrow> tok_kind \<Rightarrow> token \<Rightarrow> token \<Rightarrow> err + token" where
  "filter_test_binary line ty a b =
     (if ty = TOK_OR \<or> ty = TOK_OR_VEC
      then (if pass_site b < 0 \<or> pass_site a < 0 then Inl Fatal
            else bindE (vector_logic_or a b ty) (\<lambda>r. Inr ((fst r)\<lparr>pass_site := snd r\<rparr>)))
      else if ty = TOK_AND \<or> ty = TOK_AND_VEC
      then (if pass_site b < 0 \<or> pass_site a < 0 then Inl Fatal
            else bindE (vector_logic_and a b) (\<lambda>r. Inr ((fst r)\<lparr>pass_site := snd r\<rparr>)))
      else if ty = TOK_ADD then VECTOR_ARITHMETICS a b fadd
      else if ty = TOK_SUB then VECTOR_ARITHMETICS a b fsub
      else if ty = TOK_MULT then VECTOR_ARITHMETICS a b fmul
      else if ty = TOK_DIV then VECTOR_ARITHMETICS a b fdiv
      else bindE (filter_test_compare line ty a b) (\<lambda>r. Inr ((fst r)\<lparr>pass_site := snd r\<rparr>)))"

text \<open>One turn of the loop of \<^verbatim>\<open>filter_test\<close> for the token \<open>tok\<close> = \<^verbatim>\<open>filters[i]\<close>,
  already reset. The evaluation stack \<^verbatim>\<open>flt_stack[0..nstack-1]\<close> is the list of the
  tokens it points to, the top \<^verbatim>\<open>flt_stack[nstack-1]\<close> first: the pointers of the
  stack lead to distinct tokens of the program, each pushed once, and a token is
  changed through the stack only once it is on it. A function token calls its setter
  on \<^verbatim>\<open>flt_stack[nstack-1]\<close> with no test of \<^verbatim>\<open>nstack\<close>: with an empty stack this reads
  \<^verbatim>\<open>flt_stack[-1]\<close>. For a string constant the statement
  \<^verbatim>\<open>values[0] = values[0]\<close> changes nothing.\<close>

definition filter_test_token :: "filter_t \<Rightarrow> bcf1_t \<Rightarrow> token \<Rightarrow> token list \<Rightarrow> err + token list" where
  "filter_test_token flt line tok stack =
     (if tok_type tok = TOK_VAL
      then bindE
             (if setter tok \<noteq> NoSetter then call_setter (setter tok) flt line tok
              else case key tok of
                Some k \<Rightarrow> Inr (tok\<lparr>str_value := k, nvalues := 1\<rparr>)
              | None \<Rightarrow> bindE (wr_ext (tvalues tok) 0 (threshold tok))
                          (\<lambda>vs. Inr (tok\<lparr>tvalues := vs, nvalues := 1\<rparr>)))
             (\<lambda>tok'. Inr (tok' # stack))
      else if tok_type tok = TOK_FUNC
      then (case stack of
              [] \<Rightarrow> Inl MemFault
            | t0 # rest \<Rightarrow>
                bindE (call_setter (setter tok) flt line t0) (\<lambda>t1. Inr (t1 # rest)))
      else (case stack of
              b # a # rest \<Rightarrow>
                bindE (filter_test_binary line (tok_type tok) a b) (\<lambda>a'. Inr (a' # rest))
            | _ \<Rightarrow> Inl Fatal))"

fun filter_test_loop :: "filter_t \<Rightarrow> bcf1_t \<Rightarrow> token list \<Rightarrow> token list \<Rightarrow> err + token list" where
  "filter_test_loop flt line [] stack = Inr stack"
| "filter_test_loop flt line (f # fs) stack =
     bindE (filter_test_token flt line (f\<lparr>nsamples := 0, nvalues := 0, pass_site := -1\<rparr>) stack)
       (\<lambda>stack'. filter_test_loop flt line fs stack')"

text \<open>\<^verbatim>\<open>filter_test(filter, line, samples)\<close> called with a pointer \<^verbatim>\<open>samples\<close>: the value
  returned, and the mask \<^verbatim>\<open>*samples\<close> leads to (\<open>None\<close>: NULL). With an empty stack
  the function reads \<^verbatim>\<open>flt_stack[0]\<close>, which was never written.\<close>

definition filter_test :: "filter_t \<Rightarrow> bcf1_t \<Rightarrow> err + (int \<times> nat list option)" where
  "filter_test flt line =
     bindE (filter_test_loop flt line (filters flt) [])
       (\<lambda>stack.
          if length stack > 1 then Inl Fatal
          else case stack of
            [] \<Rightarrow> Inl MemFault
          | t0 # rest \<Rightarrow>
              if BCF_UN_FMT \<in> max_unpack flt \<and> pass_samples t0 \<noteq> []
              then (if nsamples t0 = 0
                    then bindE (for_up (filter_nsamples flt)
                                  (\<lambda>i ps. wr ps i (u8 (pass_site t0)))
                                  (pass_samples t0))
                           (\<lambda>ps. Inr (pass_site t0, Some ps))
                    else Inr (pass_site t0, Some (pass_samples t0)))
              else Inr (pass_site t0, None))"

subsection \<open>The lexer\<close>

text \<open>A C string is the list of its bytes before the terminating NUL; \<open>c_at s i\<close> is
  \<^verbatim>\<open>s[i]\<close> for \<open>i\<close> up to the terminator. The functions of \<^verbatim>\<open>ctype.h\<close> are those of
  the C locale.\<close>

definition c_at :: "string \<Rightarrow> nat \<Rightarrow> char" where
  "c_at s i = (if i < length s then s ! i else CHR 0x00)"

definition c_isspace :: "char \<Rightarrow> bool" where
  "c_isspace c = (c \<in> set [CHR '' '', CHR 0x09, CHR 0x0A, CHR 0x0B, CHR 0x0C, CHR 0x0D])"

definition c_isdigit :: "char \<Rightarrow> bool" where
  "c_isdigit c = (c \<in> set ''0123456789'')"

definition c_isalnum :: "char \<Rightarrow> bool" where
  "c_isalnum c =
     (c \<in> set ''0123456789abcdefghijklmnopqrstuvwxyzABCDEFGHIJKLMNOPQRSTUVWXYZ'')"

text \<open>\<^verbatim>\<open>strtod(s, &end)\<close> of the C library is a parameter of the compiler: it gives the
  value, the number of bytes \<^verbatim>\<open>end - s\<close> it has read, and whether it has set
  \<^verbatim>\<open>errno\<close>.\<close>

type_synonym strtod_t = "string \<Rightarrow> fval \<times> nat \<times> bool"

text \<open>The bytes that end the first scan of a value lexeme, and those that end the last
  one.\<close>

definition stop1 :: "char \<Rightarrow> bool" where
  "stop1 c = (c = CHR 0x22 \<or> c = CHR 0x27 \<or> c_isspace c \<or> c \<in> set ''<>=!&|()+*-/'')"

definition stop2 :: "char \<Rightarrow> bool" where
  "stop2 c = (c_isspace c \<or> c \<in> set ''<>=&|()+-*/'')"

text \<open>\<^verbatim>\<open>filters_next_token(&str, &len)\<close>: the value returned (\<open>None\<close>: -1), and
  \<^verbatim>\<open>*str\<close> and \<^verbatim>\<open>*len\<close> after the call.\<close>

definition filters_next_token :: "strtod_t \<Rightarrow> string \<Rightarrow> tok_kind option \<times> string \<times> nat" where
  "filters_next_token sd str0 =
     (let str = dropWhile c_isspace str0;
          num = (if c_isdigit (c_at str 0) \<or> c_at str 0 = CHR ''.''
                 then (case sd str of (v, n, e) \<Rightarrow>
                         if n \<noteq> 0 \<and> (c_at str n = CHR 0x00 \<or> \<not> c_isalnum (c_at str n))
                         then Some n else None)
                 else None)
      in case num of
        Some n \<Rightarrow> (Some TOK_VAL, str, n)
      | None \<Rightarrow>
          if take 5 str = ''%MAX('' then (Some TOK_MAX, drop 4 str, 0)
          else if take 5 str = ''%MIN('' then (Some TOK_MIN, drop 4 str, 0)
          else if take 5 str = ''%AVG('' then (Some TOK_AVG, drop 4 str, 0)
          else
            let t1 = (if take 5 str = ''INFO/'' then 5 else 0);
                t2 = (if take 7 (drop t1 str) = ''FORMAT/'' then t1 + 7 else t1);
                t3 = (if take 4 (drop t2 str) = ''FMT/'' then t2 + 4 else t2);
                tmp = t3 + length (takeWhile (\<lambda>c. \<not> stop1 c) (drop t3 str))
            in
              if tmp > 0 then (Some TOK_VAL, str, tmp)
              else if c_at str 0 = CHR 0x22 \<or> c_at str 0 = CHR 0x27
              then (let q = 1 + length (takeWhile (\<lambda>c. c \<noteq> c_at str 0) (drop 1 str))
                    in if c_at str q = CHR 0x00 then (None, str, 0)
                       else (Some TOK_VAL, str, q + 1))
              else if c_at str 0 = CHR ''!'' \<and> c_at str 1 = CHR ''=''
              then (Some TOK_NE, drop 2 str, 0)
              else if c_at str 0 = CHR ''<''
              then (if c_at str 1 = CHR ''='' then (Some TOK_LE, drop 2 str, 0)
                    else (Some TOK_LT, drop 1 str, 0))
              else if c_at str 0 = CHR ''>''
              then (if c_at str 1 = CHR ''='' then (Some TOK_BE, drop 2 str, 0)
                    else (Some TOK_BT, drop 1 str, 0))
              else if c_at str 0 = CHR ''=''
              then (if c_at str 1 = CHR ''='' then (Some TOK_EQ, drop 2 str, 0)
                    else (Some TOK_EQ, drop 1 str, 0))
              else if c_at str 0 = CHR ''('' then (Some TOK_LFT, drop 1 str, 0)
              else if c_at str 0 = CHR '')'' then (Some TOK_RGT, drop 1 str, 0)
              else if c_at str 0 = CHR ''&'' \<and> c_at str 1 = CHR ''&''
              then (Some TOK_AND_VEC, drop 2 str, 0)
              else if c_at str 0 = CHR ''|'' \<and> c_at str 1 = CHR ''|''
              then (Some TOK_OR_VEC, drop 2 str, 0)
              else if c_at str 0 = CHR ''&'' then (Some TOK_AND, drop 1 str, 0)
              else if c_at str 0 = CHR ''|'' then (Some TOK_OR, drop 1 str, 0)
              else if c_at str 0 = CHR ''+'' then (Some TOK_ADD, drop 1 str, 0)
              else if c_at str 0 = CHR ''-'' then (Some TOK_SUB, drop 1 str, 0)
              else if c_at str 0 = CHR ''*'' then (Some TOK_MULT, drop 1 str, 0)
              else if c_at str 0 = CHR ''/'' then (Some TOK_DIV, drop 1 str, 0)
              else (Some TOK_VAL, str, length (takeWhile (\<lambda>c. \<not> stop2 c) str)))"

subsection \<open>Binding a value lexeme\<close>

text \<open>Whether \<^verbatim>\<open>strncmp(s1,s2,n)\<close> is 0: the first \<open>n\<close> bytes agree, the terminators
  included.\<close>

definition strncmp0 :: "string \<Rightarrow> string \<Rightarrow> nat \<Rightarrow> bool" where
  "strncmp0 s1 s2 n = (take n (s1 @ [CHR 0x00]) = take n (s2 @ [CHR 0x00]))"

definition digit_val :: "char \<Rightarrow> int" where
  "digit_val c = int (of_char c) - 48"

text \<open>\<^verbatim>\<open>atoi\<close> of the C library (no overflow).\<close>

definition atoi :: "string \<Rightarrow> int" where
  "atoi s0 =
     (let s = dropWhile c_isspace s0;
          neg = (c_at s 0 = CHR ''-'');
          s' = (if c_at s 0 = CHR ''-'' \<or> c_at s 0 = CHR ''+'' then drop 1 s else s);
          v = foldl (\<lambda>a c. 10 * a + digit_val c) 0 (takeWhile c_isdigit s')
      in if neg then - v else v)"

text \<open>The token that \<^verbatim>\<open>hts_expand0\<close> leaves for a new entry of \<^verbatim>\<open>out\<close>: every field is
  zero.\<close>

definition token0 :: token where
  "token0 = \<lparr>tok_type = TOK_VAL, key = None, tag = None, threshold = FNum 0, hdr_id = 0,
     idx = 0, setter = NoSetter, comparator = False, tvalues = [], str_value = [],
     is_str = 0, pass_site = 0, pass_samples = [], nsamples = 0, nvalues = 0\<rparr>"

text \<open>The choice of the setter of a FORMAT field, made twice in \<^verbatim>\<open>filters_init1\<close>.\<close>

definition fmt_setter :: "bcf_hdr_t \<Rightarrow> token \<Rightarrow> err + token" where
  "fmt_setter h tok =
     (if \<not> bcf_hdr_idinfo_exists h BCF_HL_FMT (hdr_id tok) then Inl Fatal
      else if bcf_hdr_id2number h BCF_HL_FMT (hdr_id tok) \<noteq> 1 then Inl Fatal
      else case bcf_hdr_id2type h BCF_HL_FMT (hdr_id tok) of
        BCF_HT_INT \<Rightarrow> Inr (tok\<lparr>setter := filters_set_format_int\<rparr>)
      | BCF_HT_REAL \<Rightarrow> Inr (tok\<lparr>setter := filters_set_format_float\<rparr>)
      | BCF_HT_STR \<Rightarrow> Inr (tok\<lparr>setter := filters_set_format_string, is_str := 1\<rparr>)
      | _ \<Rightarrow> Inl Fatal)"

text \<open>\<^verbatim>\<open>filters_init1(filter, str, len, inside_func, tok)\<close>: the filter and the token
  after the call. \<open>str\<close> is the rest of the expression from the lexeme on.\<close>

definition filters_init1 ::
  "strtod_t \<Rightarrow> filter_t \<Rightarrow> string \<Rightarrow> int \<Rightarrow> int \<Rightarrow> token \<Rightarrow> err + (filter_t \<times> token)" where
  "filters_init1 sd filt str len inside_func tok0 =
     (let tok = tok0\<lparr>tok_type := TOK_VAL, hdr_id := -1, pass_site := -1\<rparr>;
          h = filter_hdr filt in
      if c_at str 0 = CHR 0x22 \<or> c_at str 0 = CHR 0x27
      then (if len < 2 then Inl MemFault
            else if c_at str (nat (len - 1)) \<noteq> c_at str 0 then Inl Fatal
            else bindE (wr_ext (tvalues tok) 0 (FNum (of_int (len - 2))))
                   (\<lambda>vs. Inr (filt, tok\<lparr>key := Some (take (nat (len - 2)) (drop 1 str)),
                                           tvalues := vs, is_str := 1\<rparr>)))
      else if \<not> (strncmp0 str ''FMT/'' 4 \<or> strncmp0 str ''FORMAT/'' 4)
              \<and> \<not> strncmp0 str ''INFO/'' 5 \<and> strncmp0 str ''%QUAL'' (nat len)
      then Inr (filt, tok\<lparr>setter := filters_set_qual, tag := Some ''%QUAL''\<rparr>)
      else if \<not> (strncmp0 str ''FMT/'' 4 \<or> strncmp0 str ''FORMAT/'' 4)
              \<and> \<not> strncmp0 str ''INFO/'' 5 \<and> strncmp0 str ''%TYPE'' (nat len)
      then Inr (filt, tok\<lparr>setter := filters_set_type, tag := Some ''%TYPE''\<rparr>)
      else if \<not> (strncmp0 str ''FMT/'' 4 \<or> strncmp0 str ''FORMAT/'' 4)
              \<and> \<not> strncmp0 str ''INFO/'' 5 \<and> strncmp0 str ''%FILTER'' (nat len)
      then Inr (filt\<lparr>max_unpack := insert BCF_UN_FLT (max_unpack filt)\<rparr>,
                tok\<lparr>comparator := True, tag := Some ''%FILTER''\<rparr>)
      else
        let (is_fmt0, str1, len1) =
              (if strncmp0 str ''FMT/'' 4 \<or> strncmp0 str ''FORMAT/'' 4
               then (1::int, drop 4 str, len - 4)
               else if strncmp0 str ''INFO/'' 5 then (0, drop 5 str, len - 5)
               else (-1, str, len));
            is_fmt = (if is_fmt0 = -1 then (if inside_func \<noteq> 0 then 1 else 0) else is_fmt0);
            filter1 = (if is_fmt \<noteq> 0
                       then filt\<lparr>max_unpack := insert BCF_UN_FMT (max_unpack filt)\<rparr>
                       else filt);
            tmp_s = take (nat len1) str1;
            tok1 = tok\<lparr>hdr_id := bcf_hdr_id2int h tmp_s\<rparr>
        in
          if hdr_id tok1 \<ge> 0
          then (if is_fmt \<noteq> 0
                then bindE (fmt_setter h tok1) (\<lambda>tok2. Inr (filter1, tok2\<lparr>tag := Some tmp_s\<rparr>))
                else if \<not> bcf_hdr_idinfo_exists h BCF_HL_INFO (hdr_id tok1) then Inl Fatal
                else if bcf_hdr_id2type h BCF_HL_INFO (hdr_id tok1) = BCF_HT_FLAG
                then Inr (filter1\<lparr>max_unpack := insert BCF_UN_INFO (max_unpack filter1)\<rparr>,
                          tok1\<lparr>setter := filters_set_info_flag, tag := Some tmp_s\<rparr>)
                else if bcf_hdr_id2number h BCF_HL_INFO (hdr_id tok1) \<noteq> 1 then Inl Fatal
                else Inr (filter1\<lparr>max_unpack := insert BCF_UN_INFO (max_unpack filter1)\<rparr>,
                          tok1\<lparr>is_str := (if bcf_hdr_id2type h BCF_HL_INFO (hdr_id tok1) = BCF_HT_STR
                                           then 1 else is_str tok1),
                                setter := filters_set_info, tag := Some tmp_s\<rparr>))
          else if len1 \<le> 0 then Inl MemFault
          else
            let i = length (takeWhile (\<lambda>c. c \<noteq> CHR ''['') tmp_s);
                sub = (c_at tmp_s (nat (len1 - 1)) = CHR '']'');
                tmp_s2 = (if sub then take i tmp_s else tmp_s);
                tok2 = (if sub then tok1\<lparr>hdr_id := bcf_hdr_id2int h tmp_s2\<rparr> else tok1)
            in
              if sub \<and> hdr_id tok2 \<ge> 0
              then (if is_fmt \<noteq> 0
                    then bindE (fmt_setter h tok2)
                           (\<lambda>tok3. Inr (filter1, tok3\<lparr>idx := atoi (drop (i + 1) tmp_s)\<rparr>))
                    else if \<not> bcf_hdr_idinfo_exists h BCF_HL_INFO (hdr_id tok2) then Inl Fatal
                    else case bcf_hdr_id2type h BCF_HL_INFO (hdr_id tok2) of
                      BCF_HT_INT \<Rightarrow>
                        Inr (filter1, tok2\<lparr>setter := filters_set_info_int,
                                           idx := atoi (drop (i + 1) tmp_s)\<rparr>)
                    | BCF_HT_REAL \<Rightarrow>
                        Inr (filter1, tok2\<lparr>setter := filters_set_info_float,
                                           idx := atoi (drop (i + 1) tmp_s)\<rparr>)
                    | _ \<Rightarrow> Inl Fatal)
              else (case sd tmp_s2 of (v, n, e) \<Rightarrow>
                      if e \<or> int n \<noteq> len1 then Inl Fatal
                      else Inr (filter1, tok2\<lparr>threshold := v\<rparr>)))"

subsection \<open>The compiler\<close>

text \<open>An operator token of the output: \<^verbatim>\<open>out[nout-1].tok_type = ops[nops-1]\<close> on a new,
  zeroed entry.\<close>

definition op_token :: "tok_kind \<Rightarrow> token" where
  "op_token ty = token0\<lparr>tok_type := ty\<rparr>"

definition is_func_op :: "tok_kind \<Rightarrow> bool" where
  "is_func_op ty = (ty = TOK_MAX \<or> ty = TOK_MIN \<or> ty = TOK_AVG)"

text \<open>The operator stack \<^verbatim>\<open>ops[0..nops-1]\<close> is a list, its top \<^verbatim>\<open>ops[nops-1]\<close> first;
  \<^verbatim>\<open>out\<close> is the list of the tokens emitted. The three loops that pop operators: at a
  right bracket, at an operator \<open>ret\<close> (the loop pops while the precedence of \<open>ret\<close>
  is strictly below that of the top), and at the end of the expression.\<close>

fun pop_until_lft :: "tok_kind list \<Rightarrow> token list \<Rightarrow> tok_kind list \<times> token list" where
  "pop_until_lft [] out = ([], out)"
| "pop_until_lft (t # ops) out =
     (if t \<noteq> TOK_LFT then pop_until_lft ops (out @ [op_token t]) else (t # ops, out))"

fun pop_prec ::
  "tok_kind \<Rightarrow> tok_kind list \<Rightarrow> token list \<Rightarrow> int \<Rightarrow> err + (tok_kind list \<times> token list \<times> int)" where
  "pop_prec ret [] out nfunc = Inr ([], out, nfunc)"
| "pop_prec ret (t # ops) out nfunc =
     bindE (rd op_prec (tok_code ret)) (\<lambda>p.
     bindE (rd op_prec (tok_code t)) (\<lambda>q.
       if p < q
       then pop_prec ret ops (out @ [op_token t]) (if is_func_op t then nfunc - 1 else nfunc)
       else Inr (t # ops, out, nfunc)))"

fun pop_all :: "tok_kind list \<Rightarrow> token list \<Rightarrow> err + token list" where
  "pop_all [] out = Inr out"
| "pop_all (t # ops) out =
     (if t = TOK_LFT \<or> t = TOK_RGT then Inl Fatal else pop_all ops (out @ [op_token t]))"

text \<open>Each call of the lexer leaves a string no longer than the one it was given,
  shorter after an operator or a bracket, and not empty when it reports a lexeme: the
  loop of \<^verbatim>\<open>filter_init\<close> ends.\<close>

definition lex_adv :: "string \<Rightarrow> tok_kind option \<times> string \<times> nat \<Rightarrow> bool" where
  "lex_adv str res =
     (case res of (r, s', n) \<Rightarrow>
        length s' \<le> length str \<and> (r \<noteq> Some TOK_VAL \<and> r \<noteq> None \<longrightarrow> length s' < length str)
        \<and> (r = Some TOK_VAL \<and> 0 < n \<longrightarrow> s' \<noteq> []))"

lemma dropWhile_le: "length (dropWhile P xs) \<le> length xs"
  by (induction xs) auto

lemma c_at_0_nonempty: "c_at s 0 = c \<Longrightarrow> c \<noteq> CHR 0x00 \<Longrightarrow> s \<noteq> []"
  by (auto simp: c_at_def split: if_splits)

lemma lex_adv_if: "(c \<Longrightarrow> lex_adv s a) \<Longrightarrow> (\<not> c \<Longrightarrow> lex_adv s b) \<Longrightarrow> lex_adv s (if c then a else b)"
  by simp

lemma lex_adv_drop: "str \<noteq> [] \<Longrightarrow> 0 < k \<Longrightarrow> lex_adv str (r, drop k str, 0)"
  by (cases str) (auto simp: lex_adv_def)

lemma lex_adv_val: "(0 < n \<Longrightarrow> str \<noteq> []) \<Longrightarrow> lex_adv str (Some TOK_VAL, str, n)"
  by (auto simp: lex_adv_def)

lemma lex_adv_none: "lex_adv str (None, str, 0)"
  by (auto simp: lex_adv_def)

lemma take5_nonempty: "take 5 str = c # cs \<Longrightarrow> str \<noteq> []"
  by auto

lemma lexer_adv_str: "lex_adv (dropWhile c_isspace s) (filters_next_token sd s)"
proof -
  define str where "str = dropWhile c_isspace s"
  have num: "lex_adv str (Some TOK_VAL, str, n)"
    if "(if c_isdigit (c_at str 0) \<or> c_at str 0 = CHR ''.''
         then (case sd str of (v, n, e) \<Rightarrow>
                 if n \<noteq> 0 \<and> (c_at str n = CHR 0x00 \<or> \<not> c_isalnum (c_at str n))
                 then Some n else None)
         else None) = Some n" for n
  proof -
    from that have "c_isdigit (c_at str 0) \<or> c_at str 0 = CHR ''.''"
      by (auto split: if_splits)
    then have "str \<noteq> []" by (auto simp: c_isdigit_def c_at_def split: if_splits)
    then show ?thesis by (simp add: lex_adv_val)
  qed
  have pre: "lex_adv str (Some TOK_VAL, str, t3 + length (takeWhile P (drop t3 str)))"
    if "str = [] \<Longrightarrow> t3 = 0" for t3 P
    by (rule lex_adv_val) (use that in \<open>cases "str = []"; auto\<close>)
  have quote: "lex_adv str (Some TOK_VAL, str, n)"
    if "c_at str 0 = CHR 0x22 \<or> c_at str 0 = CHR 0x27" for n
    by (rule lex_adv_val) (use that in \<open>auto simp: c_at_def split: if_splits\<close>)
  have op1: "lex_adv str (r, drop k str, 0)" if "c_at str 0 = c" "c \<noteq> CHR 0x00" "0 < k" for r k c
    using that by (intro lex_adv_drop c_at_0_nonempty[of str c]) auto
  have op2: "lex_adv str (r, drop k str, 0)"
    if "c_at str 0 = c \<and> c_at str 1 = d" "c \<noteq> CHR 0x00" "0 < k" for r k c d
    using that by (intro lex_adv_drop c_at_0_nonempty[of str c]) auto
  show ?thesis
    unfolding filters_next_token_def str_def[symmetric] Let_def
    apply (split option.split, intro conjI allI impI)
    subgoal
      apply (intro lex_adv_if)
      apply (rule lex_adv_drop, erule take5_nonempty, simp (no_asm))
      apply (rule lex_adv_drop, erule take5_nonempty, simp (no_asm))
      apply (rule lex_adv_drop, erule take5_nonempty, simp (no_asm))
      apply (rule pre, simp (no_asm_simp))
      apply (rule lex_adv_none)
      apply (erule quote)
      apply (erule op2, simp (no_asm), simp (no_asm))
      apply (erule op1, simp (no_asm), simp (no_asm))
      apply (erule op1, simp (no_asm), simp (no_asm))
      apply (erule op1, simp (no_asm), simp (no_asm))
      apply (erule op1, simp (no_asm), simp (no_asm))
      apply (erule op1, simp (no_asm), simp (no_asm))
      apply (erule op1, simp (no_asm), simp (no_asm))
      apply (erule op1, simp (no_asm), simp (no_asm))
      apply (erule op1, simp (no_asm), simp (no_asm))
      apply (erule op2, simp (no_asm), simp (no_asm))
      apply (erule op2, simp (no_asm), simp (no_asm))
      apply (erule op1, simp (no_asm), simp (no_asm))
      apply (erule op1, simp (no_asm), simp (no_asm))
      apply (erule op1, simp (no_asm), simp (no_asm))
      apply (erule op1, simp (no_asm), simp (no_asm))
      apply (erule op1, simp (no_asm), simp (no_asm))
      apply (erule op1, simp (no_asm), simp (no_asm))
      apply (rule lex_adv_val, simp (no_asm_use), fastforce)
      done
    subgoal for n by (rule num)
    done
qed

lemma lexer_shorter:
  assumes "filters_next_token sd s = (Some r, s', n)" and "r \<noteq> TOK_VAL"
  shows "length s' < length s"
  using lexer_adv_str[of s sd] dropWhile_le[of c_isspace s] assms
  by (simp add: lex_adv_def)

lemma lexer_value_shorter:
  assumes "filters_next_token sd s = (Some TOK_VAL, s', n)" and "n \<noteq> 0"
  shows "length (drop n s') < length s"
  using lexer_adv_str[of s sd] dropWhile_le[of c_isspace s] assms
  by (cases s') (auto simp: lex_adv_def)

text \<open>The loop \<^verbatim>\<open>while ( *tmp )\<close> of \<^verbatim>\<open>filter_init\<close>, on the state \<^verbatim>\<open>filter\<close>,
  \<^verbatim>\<open>ops\<close>, \<^verbatim>\<open>out\<close>, \<^verbatim>\<open>last_op\<close> (\<open>None\<close>: -1), \<^verbatim>\<open>nfunc\<close> and \<^verbatim>\<open>tmp\<close>.\<close>

function filter_init_loop ::
  "strtod_t \<Rightarrow> filter_t \<Rightarrow> tok_kind list \<Rightarrow> token list \<Rightarrow> tok_kind option \<Rightarrow> int \<Rightarrow> string
   \<Rightarrow> err + (filter_t \<times> tok_kind list \<times> token list)" where
  "filter_init_loop sd filt ops out last_op nfunc tmp =
     (if tmp = [] then Inr (filt, ops, out)
      else case filters_next_token sd tmp of
        (None, tmp1, len) \<Rightarrow> Inl Fatal
      | (Some ret, tmp1, len) \<Rightarrow>
          if ret = TOK_LFT
          then filter_init_loop sd filt (ret # ops) out (Some ret) nfunc tmp1
          else if ret = TOK_RGT
          then (case pop_until_lft ops out of
                  (ops1, out1) \<Rightarrow>
                    if ops1 = [] then Inl Fatal
                    else filter_init_loop sd filt (tl ops1) out1 (Some ret) nfunc tmp1)
          else if ret \<noteq> TOK_VAL
          then (if ret = TOK_SUB \<and> last_op \<noteq> Some TOK_VAL \<and> last_op \<noteq> Some TOK_RGT
                then filter_init_loop sd filt (TOK_MULT # ops)
                       (out @ [token0\<lparr>tok_type := TOK_VAL, hdr_id := -1, pass_site := -1,
                                       threshold := FNum (-1)\<rparr>])
                       (Some TOK_MULT) nfunc tmp1
                else case pop_prec ret ops out nfunc of
                  Inl e \<Rightarrow> Inl e
                | Inr (ops1, out1, nfunc1) \<Rightarrow>
                    filter_init_loop sd filt (ret # ops1) out1 (Some ret)
                      (if is_func_op ret then nfunc1 + 1 else nfunc1) tmp1)
          else if len = 0
          then (if c_at tmp1 0 \<noteq> CHR 0x00 \<and> \<not> c_isspace (c_at tmp1 0) then Inl Fatal
                else Inr (filt, ops, out))
          else case filters_init1 sd filt tmp1 (int len) nfunc token0 of
            Inl e \<Rightarrow> Inl e
          | Inr (filt1, tok) \<Rightarrow>
              filter_init_loop sd filt1 ops (out @ [tok]) (Some ret) nfunc (drop len tmp1))"
  by pat_completeness auto
termination
  by (relation "measure (\<lambda>(sd, filt, ops, out, last_op, nfunc, tmp). length tmp)")
     (auto dest: lexer_shorter[OF sym] lexer_value_shorter[OF sym])

text \<open>\<^verbatim>\<open>strcasecmp(a,b)==0\<close>, and the constants \<^verbatim>\<open>VCF_REF\<close>, \<^verbatim>\<open>VCF_SNP\<close>,
  \<^verbatim>\<open>VCF_MNP\<close>, \<^verbatim>\<open>VCF_INDEL\<close> and \<^verbatim>\<open>VCF_OTHER\<close> of htslib.\<close>

definition c_tolower :: "char \<Rightarrow> char" where
  "c_tolower c =
     (if c \<in> set ''ABCDEFGHIJKLMNOPQRSTUVWXYZ'' then char_of (of_char c + (32::nat)) else c)"

definition strcasecmp0 :: "string \<Rightarrow> string \<Rightarrow> bool" where
  "strcasecmp0 a b = (map c_tolower a = map c_tolower b)"

definition type_literal :: "string \<Rightarrow> int option" where
  "type_literal k =
     (if strcasecmp0 k ''snp'' \<or> strcasecmp0 k ''snps'' then Some 1
      else if strcasecmp0 k ''indel'' \<or> strcasecmp0 k ''indels'' then Some 4
      else if strcasecmp0 k ''mnp'' \<or> strcasecmp0 k ''mnps'' then Some 2
      else if strcasecmp0 k ''other'' then Some 8
      else if strcasecmp0 k ''ref'' then Some 0
      else None)"

text \<open>The operand of a \<^verbatim>\<open>%TYPE\<close> or \<^verbatim>\<open>%FILTER\<close> token \<^verbatim>\<open>out[i]\<close>: the index \<open>j\<close>
  that the pass chooses and the key of \<^verbatim>\<open>out[j]\<close>. With \<open>i = 0\<close> and a comparison at
  \<^verbatim>\<open>out[1]\<close> the pass reads \<^verbatim>\<open>out[-1]\<close>.\<close>

definition special_operand :: "token list \<Rightarrow> nat \<Rightarrow> err + (nat \<times> string)" where
  "special_operand out i =
     (if i + 1 = length out then Inl Fatal
      else if tok_type (out ! (i + 1)) = TOK_EQ \<or> tok_type (out ! (i + 1)) = TOK_NE
      then (if i = 0 then Inl MemFault
            else if tok_type (out ! (i - 1)) \<noteq> TOK_VAL then Inl Fatal
            else case key (out ! (i - 1)) of None \<Rightarrow> Inl Fatal | Some k \<Rightarrow> Inr (i - 1, k))
      else if tok_type (out ! (i + 1)) \<noteq> TOK_VAL then Inl Fatal
      else case key (out ! (i + 1)) of None \<Rightarrow> Inl Fatal | Some k \<Rightarrow> Inr (i + 1, k))"

text \<open>The number of tokens that hold a key: each special form takes one key away,
  which bounds the turns of the pass that go back to an index already seen.\<close>

primrec nkeys :: "token list \<Rightarrow> nat" where
  "nkeys [] = 0"
| "nkeys (t # ts) = (if key t \<noteq> None then 1 else 0) + nkeys ts"

lemma nkeys_update:
  "j < length xs \<Longrightarrow>
   nkeys (xs[j := y]) + (if key (xs ! j) \<noteq> None then 1 else 0)
     = nkeys xs + (if key y \<noteq> None then 1 else 0)"
proof (induction xs arbitrary: j)
  case Nil
  then show ?case by simp
next
  case (Cons x xs)
  then show ?case by (cases j) auto
qed

lemma special_operand_key:
  "special_operand out i = Inr (j, k) \<Longrightarrow> i < length out \<Longrightarrow> j < length out \<and> key (out ! j) = Some k"
  by (auto simp: special_operand_def split: if_splits option.splits)

lemma nkeys_special:
  assumes "special_operand out i = Inr (j, k)" and "i < length out" and "key y = None"
  shows "nkeys (out[j := y]) < nkeys out"
  using nkeys_update[of j out y] special_operand_key[OF assms(1,2)] assms(3) by simp

lemma nkeys_same: "i < length xs \<Longrightarrow> key y = key (xs ! i) \<Longrightarrow> nkeys (xs[i := y]) = nkeys xs"
  using nkeys_update[of i xs y] by simp

lemma nkeys_special2:
  assumes "special_operand out i = Inr (j, k)" and "i < length out" and "key y = None"
    and "key z = key (out ! i)"
  shows "nkeys ((out[j := y])[i := z]) < nkeys out"
proof -
  have j: "j < length out" "j \<noteq> i"
    using assms(1,2) by (auto simp: special_operand_def split: if_splits option.splits)
  have "nkeys ((out[j := y])[i := z]) = nkeys (out[j := y])"
    using assms(2,4) j by (intro nkeys_same) auto
  then show ?thesis using nkeys_special[OF assms(1-3)] by simp
qed

text \<open>The pass of \<^verbatim>\<open>filter_init\<close> over \<^verbatim>\<open>out\<close> for the special forms, from the index
  \<open>i\<close> on; \<^verbatim>\<open>i = j; continue;\<close> goes on at \<open>j + 1\<close>.\<close>

function special_forms :: "bcf_hdr_t \<Rightarrow> token list \<Rightarrow> nat \<Rightarrow> err + token list" where
  "special_forms h out i =
     (if length out \<le> i then Inr out
      else if tok_type (out ! i) \<noteq> TOK_VAL then special_forms h out (i + 1)
      else case tag (out ! i) of
        None \<Rightarrow> special_forms h out (i + 1)
      | Some tg \<Rightarrow>
          if tg = ''%TYPE''
          then (case special_operand out i of
                  Inl e \<Rightarrow> Inl e
                | Inr (j, k) \<Rightarrow>
                    (case type_literal k of
                       None \<Rightarrow> Inl Fatal
                     | Some c \<Rightarrow>
                         special_forms h
                           (out[j := (out ! j)\<lparr>threshold := FNum (of_int c), is_str := 0,
                                               tag := Some k, key := None\<rparr>])
                           (j + 1)))
          else if tg = ''%FILTER''
          then (case special_operand out i of
                  Inl e \<Rightarrow> Inl e
                | Inr (j, k) \<Rightarrow>
                    if k \<noteq> ''.'' \<and> \<not> bcf_hdr_idinfo_exists h BCF_HL_FLT (bcf_hdr_id2int h k)
                    then Inl Fatal
                    else
                      special_forms h
                        ((out[j := (out ! j)\<lparr>hdr_id := (if k \<noteq> ''.'' then bcf_hdr_id2int h k else -1),
                                             tag := Some k, key := None\<rparr>])
                           [i := (out ! i)\<lparr>hdr_id := (if k \<noteq> ''.'' then bcf_hdr_id2int h k else -1)\<rparr>])
                        (j + 1))
          else special_forms h out (i + 1))"
  by pat_completeness auto
termination
  by (relation "measures [\<lambda>(h, out, i). nkeys out, \<lambda>(h, out, i). length out - i]")
     (auto simp: nkeys_special nkeys_special2 not_le)

text \<open>The last loop of \<^verbatim>\<open>filter_init\<close>: the function tokens get their setter and the
  kind \<^verbatim>\<open>TOK_FUNC\<close>, and every token a mask of \<^verbatim>\<open>filter->nsamples\<close> bytes, all 1, when
  that number is not 0.\<close>

definition finish_token :: "nat \<Rightarrow> token \<Rightarrow> token" where
  "finish_token ns t =
     (let t1 = (if tok_type t = TOK_MAX then t\<lparr>setter := set_max_fn, tok_type := TOK_FUNC\<rparr>
                else if tok_type t = TOK_MIN then t\<lparr>setter := set_min_fn, tok_type := TOK_FUNC\<rparr>
                else if tok_type t = TOK_AVG then t\<lparr>setter := set_avg_fn, tok_type := TOK_FUNC\<rparr>
                else t)
      in if ns \<noteq> 0 then t1\<lparr>pass_samples := replicate ns 1\<rparr> else t1)"

text \<open>\<^verbatim>\<open>filter_init(hdr, str)\<close>: the compiled filter, whose tokens \<open>filters\<close> are the
  program in reverse Polish notation.\<close>

definition filter_init :: "strtod_t \<Rightarrow> bcf_hdr_t \<Rightarrow> string \<Rightarrow> err + filter_t" where
  "filter_init sd h s =
     (case filter_init_loop sd
             \<lparr>filter_hdr = h, filter_str = s, filters = [], max_unpack = {BCF_UN_STR},
              filter_nsamples = 0\<rparr> [] [] None 0 s of
        Inl e \<Rightarrow> Inl e
      | Inr (filt, ops, out) \<Rightarrow>
          (case pop_all ops out of
             Inl e \<Rightarrow> Inl e
           | Inr out1 \<Rightarrow>
               (case special_forms h out1 0 of
                  Inl e \<Rightarrow> Inl e
                | Inr out2 \<Rightarrow>
                    let ns = (if BCF_UN_FMT \<in> max_unpack filt then bcf_hdr_nsamples h else 0)
                    in Inr (filt\<lparr>filter_nsamples := ns,
                                  filters := map (finish_token ns) out2\<rparr>))))"

text \<open>A model of \<^verbatim>\<open>strtod\<close> for decimal literals (an optional sign, digits with an
  optional point, an optional exponent), with which the compiler is run on the
  expressions of the examples; it reads nothing when no digit is found.\<close>

definition digits_val :: "string \<Rightarrow> int" where
  "digits_val ds = foldl (\<lambda>a c. 10 * a + digit_val c) 0 ds"

definition strtod_dec :: strtod_t where
  "strtod_dec s0 =
     (let ws = length (takeWhile c_isspace s0);
          s = drop ws s0;
          sg = (if c_at s 0 = CHR ''-'' \<or> c_at s 0 = CHR ''+'' then 1 else 0);
          d1 = takeWhile c_isdigit (drop sg s);
          r1 = drop (sg + length d1) s;
          d2 = (if c_at r1 0 = CHR ''.'' then takeWhile c_isdigit (drop 1 r1) else []);
          n2 = (if c_at r1 0 = CHR ''.'' then 1 + length d2 else 0);
          r2 = drop n2 r1;
          esg = (if c_at r2 1 = CHR ''-'' \<or> c_at r2 1 = CHR ''+'' then 1 else 0);
          d3 = (if c_at r2 0 = CHR ''e'' \<or> c_at r2 0 = CHR ''E''
                then takeWhile c_isdigit (drop (1 + esg) r2) else []);
          n3 = (if d3 = [] then 0 else 1 + esg + length d3);
          mant = real_of_int (digits_val (d1 @ d2)) / 10 ^ length d2;
          ex = digits_val d3;
          v = (if c_at r2 1 = CHR ''-'' then mant / 10 ^ nat ex else mant * 10 ^ nat ex)
      in if d1 = [] \<and> d2 = [] then (FNum 0, 0, False)
         else (FNum (if c_at s 0 = CHR ''-'' then - v else v), ws + sg + length d1 + n2 + n3, False))"

subsection \<open>Compiling and evaluating; the header and the records of the examples\<close>

text \<open>What \<^verbatim>\<open>filter_init\<close> leaves in the filter: the program, the unpack bits and the
  number of samples; and \<^verbatim>\<open>filter_init\<close> followed by one \<^verbatim>\<open>filter_test\<close>.\<close>

definition compiled :: "strtod_t \<Rightarrow> bcf_hdr_t \<Rightarrow> string \<Rightarrow> err + (token list \<times> un_t set \<times> nat)" where
  "compiled sd h s =
     (case filter_init sd h s of
        Inl e \<Rightarrow> Inl e
      | Inr f \<Rightarrow> Inr (filters f, max_unpack f, filter_nsamples f))"

definition filter_run :: "strtod_t \<Rightarrow> bcf_hdr_t \<Rightarrow> string \<Rightarrow> bcf1_t \<Rightarrow> err + (int \<times> nat list option)" where
  "filter_run sd h s line =
     (case filter_init sd h s of Inl e \<Rightarrow> Inl e | Inr flt \<Rightarrow> filter_test flt line)"

text \<open>A header with the filters PASS (id 0) and q10, the INFO fields a, b and c and the
  FORMAT fields DP and GQ, all integers with Number=1, and \<open>n\<close> samples.\<close>

definition hdr_ex :: "nat \<Rightarrow> bcf_hdr_t" where
  "hdr_ex n =
     \<lparr>bcf_hdr_id2int =
        (\<lambda>s. if s = ''PASS'' then 0 else if s = ''q10'' then 1 else if s = ''a'' then 2
             else if s = ''b'' then 3 else if s = ''c'' then 4 else if s = ''DP'' then 5
             else if s = ''GQ'' then 6 else -1),
      bcf_hdr_idinfo_exists =
        (\<lambda>h i. (h = BCF_HL_FLT \<and> (i = 0 \<or> i = 1)) \<or> (h = BCF_HL_INFO \<and> (i = 2 \<or> i = 3 \<or> i = 4))
                \<or> (h = BCF_HL_FMT \<and> (i = 5 \<or> i = 6))),
      bcf_hdr_id2number = (\<lambda>h i. 1),
      bcf_hdr_id2type = (\<lambda>h i. BCF_HT_INT),
      bcf_hdr_nsamples = n\<rparr>"

text \<open>A record with the quality \<open>q\<close>, the filters \<open>fl\<close>, no INFO field, and the FORMAT
  fields GQ and DP as given (\<open>None\<close>: not in the record).\<close>

definition line_ex :: "fval \<Rightarrow> int list \<Rightarrow> int list option \<Rightarrow> int list option \<Rightarrow> bcf1_t" where
  "line_ex q fl gq dp =
     \<lparr>qual = q, bcf_get_variant_types = 1, d_info = [], d_flt = fl,
      bcf_get_format_int32 = (\<lambda>t. if t = ''GQ'' then gq else if t = ''DP'' then dp else None),
      bcf_get_format_float = (\<lambda>t. None),
      bcf_get_format_char = (\<lambda>t. (0, []))\<rparr>"



subsection \<open>Predicates of the statements\<close>

text \<open>The values 0 and 1 of a site bit, and the three values of \<^verbatim>\<open>pass_site\<close>.\<close>

definition bit01 :: "int \<Rightarrow> bool" where
  "bit01 r = (r = 0 \<or> r = 1)"




text \<open>The filter that a compilation returned (a filter with no token when it failed).\<close>

definition filter_of :: "err + filter_t \<Rightarrow> filter_t" where
  "filter_of r =
     (case r of
        Inr f \<Rightarrow> f
      | Inl e \<Rightarrow> \<lparr>filter_hdr = hdr_ex 0, filter_str = [], filters = [], max_unpack = {},
                  filter_nsamples = 0\<rparr>)"

text \<open>A token with the kind of a logical AND set to the flavour \<open>ty\<close>.\<close>

definition and_flavour :: "tok_kind \<Rightarrow> token \<Rightarrow> token" where
  "and_flavour ty t =
     (if tok_type t = TOK_AND \<or> tok_type t = TOK_AND_VEC then t\<lparr>tok_type := ty\<rparr> else t)"














definition res_ok :: "nat \<Rightarrow> token \<Rightarrow> bool" where
  "res_ok N t =
     (length (pass_samples t) = N
      \<and> (if nsamples t = 0 then nvalues t \<le> 1 else nsamples t = N \<and> nvalues t \<le> N))"











section \<open>Properties of the kernels and of the evaluator\<close>

subsection \<open>Results and loops\<close>

lemma bindE_Inr [simp]: "bindE (Inr x) f = f x"
  by (simp add: bindE_def)

lemma bindE_Inl [simp]: "bindE (Inl e) f = Inl e"
  by (simp add: bindE_def)





















lemma filters_cmp_filter_bit: "bit01 (filters_cmp_filter a b ty line)"
  by (simp add: filters_cmp_filter_def bit01_def)



subsection \<open>The site bit of a kernel is 0 or 1, and no kernel writes pass_site\<close>


















subsection \<open>The values of pass_site on the evaluation stack\<close>











subsection \<open>The logical AND has one implementation\<close>

lemma filter_test_binary_and:
  "filter_test_binary line TOK_AND a b = filter_test_binary line TOK_AND_VEC a b"
  by (simp add: filter_test_binary_def)

lemma filter_test_token_binary:
  assumes "tok_type tok \<noteq> TOK_VAL" and "tok_type tok \<noteq> TOK_FUNC"
  shows "filter_test_token flt line tok st =
     (case st of
        b # a # rest \<Rightarrow> bindE (filter_test_binary line (tok_type tok) a b) (\<lambda>a'. Inr (a' # rest))
      | _ \<Rightarrow> Inl Fatal)"
  using assms by (simp add: filter_test_token_def)

lemma filter_test_token_and_flavour:
  assumes "ty = TOK_AND \<or> ty = TOK_AND_VEC"
  shows "filter_test_token flt line ((and_flavour ty f)\<lparr>nsamples := 0, nvalues := 0, pass_site := -1\<rparr>) st
       = filter_test_token flt line (f\<lparr>nsamples := 0, nvalues := 0, pass_site := -1\<rparr>) st"
proof (cases "tok_type f = TOK_AND \<or> tok_type f = TOK_AND_VEC")
  case True
  with assms show ?thesis
    by (auto simp: filter_test_token_binary and_flavour_def filter_test_binary_and
        split: list.splits)
next
  case False
  then show ?thesis by (simp add: and_flavour_def)
qed

lemma filter_test_loop_and_flavour:
  assumes "ty = TOK_AND \<or> ty = TOK_AND_VEC"
  shows "filter_test_loop flt line (map (and_flavour ty) prog) st = filter_test_loop flt line prog st"
proof (induction prog arbitrary: st)
  case Nil
  then show ?case by simp
next
  case (Cons f fs)
  have "filter_test_loop flt line (map (and_flavour ty) fs) = filter_test_loop flt line fs"
    using Cons.IH by (intro ext)
  then show ?case by (simp add: filter_test_token_and_flavour[OF assms])
qed

lemma filter_test_loop_flt:
  "filter_test_loop (flt\<lparr>filters := p\<rparr>) line prog st = filter_test_loop flt line prog st"
proof -
  have c: "call_setter s (flt\<lparr>filters := p\<rparr>) line t = call_setter s flt line t" for s t
    by (cases s) (auto simp: call_setter_def filters_set_format_string_impl_def split: option.splits prod.splits cong: if_cong)
  have t: "filter_test_token (flt\<lparr>filters := p\<rparr>) line tok st = filter_test_token flt line tok st" for tok st
    by (simp add: filter_test_token_def c cong: list.case_cong if_cong)
  show ?thesis
  proof (induction prog arbitrary: st)
    case Nil
    then show ?case by simp
  next
    case (Cons f fs)
    have "filter_test_loop (flt\<lparr>filters := p\<rparr>) line fs = filter_test_loop flt line fs"
      using Cons.IH by (intro ext)
    then show ?case by (simp add: t)
  qed
qed

subsection \<open>The %FILTER comparator and the loops of the logical OR\<close>

lemma flt_match_set: "flt_match h fs \<longleftrightarrow> h \<in> set fs"
  by (induction fs) auto

lemma upd_prefix:
  assumes "length xs = k" and "k < length ps"
  shows "(xs @ drop k ps)[k := x] = (xs @ [x]) @ drop (Suc k) ps"
  using assms by (simp add: list_update_append Cons_nth_drop_Suc[symmetric])

text \<open>A loop whose turn \<open>i\<close> stores \<open>g i\<close> in the mask and raises the site bit when
  \<open>c i\<close> holds.\<close>

lemma for_up_mask:
  assumes body: "\<And>i ps p. i < n \<Longrightarrow> length ps = length ps0 \<Longrightarrow> ps ! i = ps0 ! i
                   \<Longrightarrow> body i (ps, p) = Inr (ps[i := g i], if c i then 1 else p)"
    and n: "n \<le> length ps0"
  shows "k \<le> n \<Longrightarrow>
         for_up k body (ps0, 0::int) = Inr (map g [0..<k] @ drop k ps0, b2i (\<exists>i<k. c i))"
proof (induction k)
  case 0
  then show ?case by (simp add: b2i_def)
next
  case (Suc k)
  then have k: "k < n" "k < length ps0" using n by auto
  let ?ps = "map g [0..<k] @ drop k ps0"
  have len: "length ?ps = length ps0" using k by simp
  have nth: "?ps ! k = ps0 ! k" using k by (simp add: nth_append)
  have upd: "?ps[k := g k] = map g [0..<Suc k] @ drop (Suc k) ps0"
    using upd_prefix[of "map g [0..<k]" k ps0 "g k"] k by simp
  have ex: "(if c k then 1 else b2i (\<exists>i<k. c i)) = b2i (\<exists>i<Suc k. c i)"
    by (auto simp: b2i_def less_Suc_eq)
  from Suc have "for_up k body (ps0, 0) = Inr (?ps, b2i (\<exists>i<k. c i))" by simp
  then show ?case using body[OF k(1) len nth] upd ex by (simp add: bindE_def)
qed


lemma rd_in: "i < length xs \<Longrightarrow> rd xs i = Inr (xs ! i)"
  by (simp add: rd_def)

lemma wr_in: "i < length xs \<Longrightarrow> wr xs i v = Inr (xs[i := v])"
  by (simp add: wr_def)

lemma map_nth_take: "n \<le> length xs \<Longrightarrow> map (\<lambda>i. xs ! i) [0..<n] = take n xs"
  by (rule nth_equalityI) auto

lemma upd_same: "ps ! i = x \<Longrightarrow> ps = ps[i := x]"
  by (metis list_update_id)

lemma or_sv_loop:
  assumes "n \<le> length (pass_samples b)" and "n \<le> length ps0"
  shows "for_up n (or_sv_body a b) (ps0, 0)
       = Inr (take n (pass_samples b) @ drop n ps0,
              b2i (\<exists>i<n. pass_site a \<noteq> 0 \<or> pass_samples b ! i \<noteq> 0))"
proof -
  have "for_up n (or_sv_body a b) (ps0, 0)
       = Inr (map (\<lambda>i. pass_samples b ! i) [0..<n] @ drop n ps0,
              b2i (\<exists>i<n. pass_site a \<noteq> 0 \<or> pass_samples b ! i \<noteq> 0))"
    using assms
    by (intro for_up_mask[where n = n])
       (auto simp: or_sv_body_def rd_in wr_in c_or_def rdb_def)
  moreover have "map (\<lambda>i. pass_samples b ! i) [0..<n] = take n (pass_samples b)"
    using assms(1) by (rule map_nth_take)
  ultimately show ?thesis by simp
qed

lemma or_vec_sv_loop:
  assumes "n \<le> length (pass_samples b)" and "n \<le> length ps0"
  shows "for_up n (or_vec_sv_body a b) (ps0, 0)
       = Inr (map (\<lambda>i. b2u (pass_site a \<noteq> 0 \<or> pass_samples b ! i \<noteq> 0)) [0..<n] @ drop n ps0,
              b2i (\<exists>i<n. pass_site a \<noteq> 0 \<or> pass_samples b ! i \<noteq> 0))"
  using assms
  by (intro for_up_mask[where n = n])
     (auto simp: or_vec_sv_body_def mask_set_any_def rd_in wr_in c_or_def rdb_def)

lemma or_vs_loop:
  assumes "n \<le> length ps0"
  shows "for_up n (or_vs_body b) (ps0, 0)
       = Inr (ps0, b2i (\<exists>i<n. pass_site b \<noteq> 0 \<or> ps0 ! i \<noteq> 0))"
proof -
  have "for_up n (or_vs_body b) (ps0, 0)
       = Inr (map (\<lambda>i. ps0 ! i) [0..<n] @ drop n ps0,
              b2i (\<exists>i<n. pass_site b \<noteq> 0 \<or> ps0 ! i \<noteq> 0))"
    using assms
    by (intro for_up_mask[where n = n])
       (auto simp: or_vs_body_def rd_in c_or_def rdb_def intro: upd_same)
  moreover have "map (\<lambda>i. ps0 ! i) [0..<n] = take n ps0"
    using assms(1) by (rule map_nth_take)
  ultimately show ?thesis by simp
qed

lemma or_vec_vs_loop:
  assumes "n \<le> length ps0"
  shows "for_up n (or_vec_vs_body b) (ps0, 0)
       = Inr (map (\<lambda>i. b2u (ps0 ! i \<noteq> 0 \<or> pass_site b \<noteq> 0)) [0..<n] @ drop n ps0,
              b2i (\<exists>i<n. ps0 ! i \<noteq> 0 \<or> pass_site b \<noteq> 0))"
  using assms
  by (intro for_up_mask[where n = n])
     (auto simp: or_vec_vs_body_def mask_set_any_def rd_in wr_in c_or_def rdb_def)

subsection \<open>The kernels return on operands that are in order\<close>



























subsection \<open>Evaluation on absent fields\<close>





subsection \<open>Evaluation of well-typed numeric programs\<close>

















lemma res_ok_pass_site [simp]: "res_ok N (t\<lparr>pass_site := r\<rparr>) = res_ok N t"
  by (simp add: res_ok_def)






section \<open>The claims\<close>

subsection \<open>C7: %AVG\<close>

text \<open>
  C7 says that \<^verbatim>\<open>%AVG\<close> of a token with \<open>n \<ge> 1\<close> non-missing values is their sum divided
  by \<open>n\<close>. In \<^verbatim>\<open>set_avg\<close> the divisor \<^verbatim>\<open>n\<close> is never incremented: for the two values 2 and
  4 the function stores 0 in \<^verbatim>\<open>values[0]\<close>, not 3.
\<close>

theorem set_avg_of_2_and_4_is_0:
  "set_avg (token0\<lparr>tvalues := [FNum 2, FNum 4], nvalues := 2, nsamples := 2\<rparr>)
     = Inr (token0\<lparr>tvalues := [FNum 0, FNum 4], nvalues := 1, nsamples := 0\<rparr>)"
  by code_simp

subsection \<open>C5: the prefixes FMT/ and FORMAT/\<close>

text \<open>
  C5 says that the prefixes \<^verbatim>\<open>FMT/\<close> and \<^verbatim>\<open>FORMAT/\<close> are interchangeable.
  \<^verbatim>\<open>filters_init1\<close> tests \<^verbatim>\<open>strncmp(str,"FORMAT/",4)\<close> and then skips 4 bytes: of
  \<^verbatim>\<open>FORMAT/DP\<close> it looks up \<^verbatim>\<open>AT/DP\<close>, which the header does not have and which is
  no number, and the compilation ends in \<^verbatim>\<open>error\<close>; \<^verbatim>\<open>FMT/DP\<close> is bound to
  \<^verbatim>\<open>filters_set_format_int\<close>.
\<close>

theorem format_prefix_is_fatal:
  "compiled strtod_dec (hdr_ex 2) ''FORMAT/DP>10'' = Inl Fatal
   \<and> compiled strtod_dec (hdr_ex 2) ''FMT/DP>10''
       = Inr ([token0\<lparr>hdr_id := 5, pass_site := -1, setter := filters_set_format_int,
                       tag := Some ''DP'', pass_samples := [1, 1]\<rparr>,
               token0\<lparr>hdr_id := -1, pass_site := -1, threshold := FNum 10,
                       pass_samples := [1, 1]\<rparr>,
               token0\<lparr>tok_type := TOK_BT, pass_samples := [1, 1]\<rparr>],
              {BCF_UN_STR, BCF_UN_FMT}, 2)"
  by code_simp

subsection \<open>C6: precedence and associativity\<close>

text \<open>
  C6 says that the compiler implements the precedence table and that operators of equal
  precedence are left-associative, so that \<^verbatim>\<open>a-b+c\<close> compiles to the postfix program of
  \<^verbatim>\<open>(a-b)+c\<close>. The table is as stated. The loop of \<^verbatim>\<open>filter_init\<close> pops only operators
  of strictly higher precedence (\<^verbatim>\<open>op_prec[ret] < op_prec[ops[nops-1]]\<close>), so on \<^verbatim>\<open>+\<close>
  the \<^verbatim>\<open>-\<close> stays on the stack: \<^verbatim>\<open>a-b+c\<close> compiles to \<open>a b c + -\<close>, the program of
  \<^verbatim>\<open>a-(b+c)\<close>, and not to \<open>a b - c +\<close>, the program of \<^verbatim>\<open>(a-b)+c\<close>.
\<close>

theorem equal_precedence_is_right_associative:
  "map (\<lambda>k. op_prec ! tok_code k)
     [TOK_LFT, TOK_RGT, TOK_OR, TOK_OR_VEC, TOK_AND, TOK_AND_VEC, TOK_LE, TOK_LT, TOK_EQ,
      TOK_BT, TOK_BE, TOK_NE, TOK_ADD, TOK_SUB, TOK_MULT, TOK_DIV, TOK_MAX, TOK_MIN, TOK_AVG]
     = [1, 1, 2, 2, 3, 3, 5, 5, 5, 5, 5, 5, 6, 6, 7, 7, 8, 8, 8]
   \<and> compiled strtod_dec (hdr_ex 2) ''a-b+c''
       = Inr ([token0\<lparr>hdr_id := 2, pass_site := -1, setter := filters_set_info, tag := Some ''a''\<rparr>,
               token0\<lparr>hdr_id := 3, pass_site := -1, setter := filters_set_info, tag := Some ''b''\<rparr>,
               token0\<lparr>hdr_id := 4, pass_site := -1, setter := filters_set_info, tag := Some ''c''\<rparr>,
               token0\<lparr>tok_type := TOK_ADD\<rparr>, token0\<lparr>tok_type := TOK_SUB\<rparr>],
              {BCF_UN_STR, BCF_UN_INFO}, 0)
   \<and> compiled strtod_dec (hdr_ex 2) ''a-b+c'' = compiled strtod_dec (hdr_ex 2) ''a-(b+c)''
   \<and> compiled strtod_dec (hdr_ex 2) ''(a-b)+c''
       = Inr ([token0\<lparr>hdr_id := 2, pass_site := -1, setter := filters_set_info, tag := Some ''a''\<rparr>,
               token0\<lparr>hdr_id := 3, pass_site := -1, setter := filters_set_info, tag := Some ''b''\<rparr>,
               token0\<lparr>tok_type := TOK_SUB\<rparr>,
               token0\<lparr>hdr_id := 4, pass_site := -1, setter := filters_set_info, tag := Some ''c''\<rparr>,
               token0\<lparr>tok_type := TOK_ADD\<rparr>],
              {BCF_UN_STR, BCF_UN_INFO}, 0)"
  by code_simp

subsection \<open>C9: stack underflow\<close>

text \<open>
  C9 says that an operator or function token that finds too few operands on the stack
  aborts with a fatal error, the function tokens included. A binary operator does
  (\<^verbatim>\<open>1 >\<close> ends in \<^verbatim>\<open>error\<close>). A function token does not: \<^verbatim>\<open>%MAX()\<close> compiles to the
  program of the single token \<^verbatim>\<open>TOK_FUNC\<close>, and \<^verbatim>\<open>filter_test\<close> calls \<^verbatim>\<open>set_max\<close> on
  \<^verbatim>\<open>flt_stack[-1]\<close>, with no test of \<^verbatim>\<open>nstack\<close> and no call of \<^verbatim>\<open>error\<close>.
\<close>

theorem function_token_underflow_is_not_fatal:
  "compiled strtod_dec (hdr_ex 2) ''%MAX()''
     = Inr ([token0\<lparr>tok_type := TOK_FUNC, setter := set_max_fn\<rparr>], {BCF_UN_STR}, 0)
   \<and> filter_run strtod_dec (hdr_ex 2) ''%MAX()'' (line_ex (FNum 30) [] None None) = Inl MemFault
   \<and> filter_run strtod_dec (hdr_ex 2) ''1 >'' (line_ex (FNum 30) [] None None) = Inl Fatal"
  by code_simp

subsection \<open>C10: vectors of differing length\<close>

text \<open>
  C10 says that the comparison of two per-sample vectors of differing nonzero length is
  a fatal error for strings and for numbers alike. \<^verbatim>\<open>cmp_vector_strings\<close> calls
  \<^verbatim>\<open>error\<close>; the macro \<^verbatim>\<open>CMP_VECTORS\<close> has no such test and loops over
  \<^verbatim>\<open>atok->nsamples\<close>. For a record of one sample in which GQ holds one value and DP
  holds two, \<^verbatim>\<open>FMT/GQ==FMT/DP\<close> compares the first values only and the record passes;
  the same two shapes in \<^verbatim>\<open>cmp_vector_strings\<close> are fatal.
\<close>

theorem numeric_vectors_of_differing_length_compare:
  "filter_run strtod_dec (hdr_ex 1) ''FMT/GQ==FMT/DP'' (line_ex (FNum 30) [] (Some [1]) (Some [1, 2]))
     = Inr (1, Some [1])
   \<and> CMP_VECTORS
        (token0\<lparr>tvalues := [FNum 1], nvalues := 1, nsamples := 1, pass_samples := [1]\<rparr>)
        (token0\<lparr>tvalues := [FNum 1, FNum 2], nvalues := 2, nsamples := 2, pass_samples := [1]\<rparr>)
        f_eq
       = Inr (token0\<lparr>tvalues := [FNum 1], nvalues := 1, nsamples := 1, pass_samples := [1]\<rparr>, 1)
   \<and> cmp_vector_strings
        (token0\<lparr>tvalues := [FNum 1], str_value := ''x'', is_str := 1, nvalues := 1, nsamples := 1,
                pass_samples := [1]\<rparr>)
        (token0\<lparr>tvalues := [FNum 1], str_value := ''xy'', is_str := 1, nvalues := 2, nsamples := 2,
                pass_samples := [1]\<rparr>)
        TOK_EQ
       = Inl Fatal"
  by code_simp

subsection \<open>C3: the value returned by filter_test\<close>




subsection \<open>C1: the two flavours of the logical OR\<close>

text \<open>
  C1: for a site-level operand \<open>s\<close> and a per-sample operand \<open>v\<close>, both non-missing and
  both results of comparisons, \<^verbatim>\<open>||\<close> (\<^verbatim>\<open>TOK_OR_VEC\<close>) stores in every slot of the
  mask the OR of the site bit and the slot of \<open>v\<close>, whereas \<^verbatim>\<open>|\<close> (\<^verbatim>\<open>TOK_OR\<close>) leaves
  the mask of \<open>v\<close> as it is (copied into the result when \<open>s\<close> is the left operand); with
  either operator the site bit is 1 iff the site bit of \<open>s\<close> or some slot of \<open>v\<close> is
  set. In particular \<^verbatim>\<open>%QUAL>10 | FMT/GQ>10\<close> with qual=5 and GQ=[15,8] yields site=1
  and mask=[1,0], and \<^verbatim>\<open>%QUAL>10 || FMT/GQ>10\<close> with qual=20 yields mask=[1,1]
  (\<^verbatim>\<open>%QUAL\<close> is how the lexer of \<^verbatim>\<open>filter.c\<close> spells the quality).
\<close>

theorem or_flavours:
  assumes "nvalues s \<noteq> 0" and "nvalues v \<noteq> 0" and "nsamples s = 0" and "nsamples v \<noteq> 0"
    and "nsamples v \<le> length (pass_samples v)" and "nsamples v \<le> length (pass_samples s)"
    and "0 \<le> pass_site s" and "0 \<le> pass_site v"
  shows "filter_test_binary line TOK_OR_VEC s v
           = Inr (s\<lparr>pass_samples :=
                      map (\<lambda>i. b2u (pass_site s \<noteq> 0 \<or> pass_samples v ! i \<noteq> 0)) [0..<nsamples v]
                        @ drop (nsamples v) (pass_samples s),
                    nsamples := nsamples v,
                    pass_site := b2i (\<exists>i<nsamples v. pass_site s \<noteq> 0 \<or> pass_samples v ! i \<noteq> 0)\<rparr>)
       \<and> filter_test_binary line TOK_OR s v
           = Inr (s\<lparr>pass_samples := take (nsamples v) (pass_samples v) @ drop (nsamples v) (pass_samples s),
                    nsamples := nsamples v,
                    pass_site := b2i (\<exists>i<nsamples v. pass_site s \<noteq> 0 \<or> pass_samples v ! i \<noteq> 0)\<rparr>)
       \<and> filter_test_binary line TOK_OR_VEC v s
           = Inr (v\<lparr>pass_samples :=
                      map (\<lambda>i. b2u (pass_samples v ! i \<noteq> 0 \<or> pass_site s \<noteq> 0)) [0..<nsamples v]
                        @ drop (nsamples v) (pass_samples v),
                    pass_site := b2i (\<exists>i<nsamples v. pass_samples v ! i \<noteq> 0 \<or> pass_site s \<noteq> 0)\<rparr>)
       \<and> filter_test_binary line TOK_OR v s
           = Inr (v\<lparr>pass_site := b2i (\<exists>i<nsamples v. pass_site s \<noteq> 0 \<or> pass_samples v ! i \<noteq> 0)\<rparr>)
       \<and> filter_run strtod_dec (hdr_ex 2) ''%QUAL>10 | FMT/GQ>10''
             (line_ex (FNum 5) [] (Some [15, 8]) None) = Inr (1, Some [1, 0])
       \<and> filter_run strtod_dec (hdr_ex 2) ''%QUAL>10 || FMT/GQ>10''
             (line_ex (FNum 20) [] (Some [15, 8]) None) = Inr (1, Some [1, 1])"
proof -
  have e1: "filter_run strtod_dec (hdr_ex 2) ''%QUAL>10 | FMT/GQ>10''
             (line_ex (FNum 5) [] (Some [15, 8]) None) = Inr (1, Some [1, 0])"
    by code_simp
  have e2: "filter_run strtod_dec (hdr_ex 2) ''%QUAL>10 || FMT/GQ>10''
             (line_ex (FNum 20) [] (Some [15, 8]) None) = Inr (1, Some [1, 1])"
    by code_simp
  have nn: "\<not> pass_site v < 0" "\<not> pass_site s < 0" using assms(7,8) by auto
  have 1: "vector_logic_or s v TOK_OR_VEC
        = Inr (s\<lparr>pass_samples :=
                      map (\<lambda>i. b2u (pass_site s \<noteq> 0 \<or> pass_samples v ! i \<noteq> 0)) [0..<nsamples v]
                        @ drop (nsamples v) (pass_samples s),
                    nsamples := nsamples v\<rparr>,
               b2i (\<exists>i<nsamples v. pass_site s \<noteq> 0 \<or> pass_samples v ! i \<noteq> 0))"
    using assms(1-4) by (simp add: vector_logic_or_def or_vec_sv_loop[OF assms(5,6)])
  have 2: "vector_logic_or s v TOK_OR
        = Inr (s\<lparr>pass_samples := take (nsamples v) (pass_samples v) @ drop (nsamples v) (pass_samples s),
                    nsamples := nsamples v\<rparr>,
               b2i (\<exists>i<nsamples v. pass_site s \<noteq> 0 \<or> pass_samples v ! i \<noteq> 0))"
    using assms(1-4) by (simp add: vector_logic_or_def or_sv_loop[OF assms(5,6)])
  have 3: "vector_logic_or v s TOK_OR_VEC
        = Inr (v\<lparr>pass_samples :=
                      map (\<lambda>i. b2u (pass_samples v ! i \<noteq> 0 \<or> pass_site s \<noteq> 0)) [0..<nsamples v]
                        @ drop (nsamples v) (pass_samples v)\<rparr>,
               b2i (\<exists>i<nsamples v. pass_samples v ! i \<noteq> 0 \<or> pass_site s \<noteq> 0))"
    using assms(1-4) by (simp add: vector_logic_or_def or_vec_vs_loop[OF assms(5)])
  have 4: "vector_logic_or v s TOK_OR
        = Inr (v, b2i (\<exists>i<nsamples v. pass_site s \<noteq> 0 \<or> pass_samples v ! i \<noteq> 0))"
    using assms(1-4) by (simp add: vector_logic_or_def or_vs_loop[OF assms(5)])
  show ?thesis
    using nn by (simp add: filter_test_binary_def 1 2 3 4 e1 e2)
qed

text \<open>The hypotheses hold of a site-level token that passes and of the mask [1,0] of two
  samples.\<close>

theorem or_flavours_witness:
  "filter_test_binary (line_ex (FNum 5) [] (Some [15, 8]) None) TOK_OR_VEC
       (token0\<lparr>nvalues := 1, pass_site := 1, pass_samples := [0, 0]\<rparr>)
       (token0\<lparr>nvalues := 2, nsamples := 2, pass_site := 1, pass_samples := [1, 0]\<rparr>)
     = Inr (token0\<lparr>nvalues := 1, pass_site := 1, pass_samples := [1, 1], nsamples := 2\<rparr>)
   \<and> filter_test_binary (line_ex (FNum 5) [] (Some [15, 8]) None) TOK_OR
       (token0\<lparr>nvalues := 1, pass_site := 1, pass_samples := [0, 0]\<rparr>)
       (token0\<lparr>nvalues := 2, nsamples := 2, pass_site := 1, pass_samples := [1, 0]\<rparr>)
     = Inr (token0\<lparr>nvalues := 1, pass_site := 1, pass_samples := [1, 0], nsamples := 2\<rparr>)"
  using or_flavours [of "token0\<lparr>nvalues := 1, pass_site := 1, pass_samples := [0, 0]\<rparr>"
      "token0\<lparr>nvalues := 2, nsamples := 2, pass_site := 1, pass_samples := [1, 0]\<rparr>"
      "line_ex (FNum 5) [] (Some [15, 8]) None"]
    exI [of "\<lambda>i. i < Suc (Suc 0)" 0]
  by (simp add: token0_def b2i_def b2u_def numeral_2_eq_2)

subsection \<open>C2: the %FILTER comparator\<close>

text \<open>
  C2: on every record (its filter ids are indices of the header's dictionary, so none is
  negative) the \<^verbatim>\<open>%FILTER\<close> comparator with \<^verbatim>\<open>==\<close> passes iff the bound id is in the
  record's list of filter ids, the id -1 of the literal \<^verbatim>\<open>"."\<close> iff the list is empty; with
  \<^verbatim>\<open>!=\<close> it passes iff the id is not in the list, the id -1 iff the list is not empty.
  \<^verbatim>\<open>filter_test\<close> takes this comparator, and writes its result as the site bit, when
  the left operand is the \<^verbatim>\<open>%FILTER\<close> token. The runs at the end are those of
  \<^verbatim>\<open>%FILTER="q10"\<close>, \<^verbatim>\<open>%FILTER="."\<close> and \<^verbatim>\<open>%FILTER!="."\<close> (the character \<open>0x22\<close> is the
  double quote).
\<close>

theorem filter_comparator_logic:
  assumes "\<forall>f \<in> set (d_flt line). 0 \<le> f"
  shows "(filters_cmp_filter atok btok TOK_EQ line \<noteq> 0)
           = (if hdr_id atok = -1 then d_flt line = [] else hdr_id atok \<in> set (d_flt line))
       \<and> (filters_cmp_filter atok btok TOK_NE line \<noteq> 0)
           = (if hdr_id atok = -1 then d_flt line \<noteq> [] else hdr_id atok \<notin> set (d_flt line))
       \<and> (comparator atok \<and> \<not> comparator btok \<and> nvalues atok \<noteq> 0 \<and> nvalues btok \<noteq> 0 \<longrightarrow>
            filter_test_binary line TOK_EQ atok btok
              = Inr (atok\<lparr>pass_site := filters_cmp_filter atok btok TOK_EQ line\<rparr>)
          \<and> filter_test_binary line TOK_NE atok btok
              = Inr (atok\<lparr>pass_site := filters_cmp_filter atok btok TOK_NE line\<rparr>))
       \<and> filter_run strtod_dec (hdr_ex 2) (''%FILTER='' @ [CHR 0x22] @ ''q10'' @ [CHR 0x22])
             (line_ex (FNum 5) [1] None None) = Inr (1, None)
       \<and> filter_run strtod_dec (hdr_ex 2) (''%FILTER='' @ [CHR 0x22] @ ''.'' @ [CHR 0x22])
             (line_ex (FNum 5) [] None None) = Inr (1, None)
       \<and> filter_run strtod_dec (hdr_ex 2) (''%FILTER!='' @ [CHR 0x22] @ ''.'' @ [CHR 0x22])
             (line_ex (FNum 5) [] None None) = Inr (0, None)
       \<and> filter_run strtod_dec (hdr_ex 2) (''%FILTER!='' @ [CHR 0x22] @ ''.'' @ [CHR 0x22])
             (line_ex (FNum 5) [1] None None) = Inr (1, None)"
proof -
  have m: "hdr_id atok = -1 \<Longrightarrow> \<not> flt_match (hdr_id atok) (d_flt line)"
    using assms by (auto simp: flt_match_set)
  have e1: "filter_run strtod_dec (hdr_ex 2) (''%FILTER='' @ [CHR 0x22] @ ''q10'' @ [CHR 0x22])
             (line_ex (FNum 5) [1] None None) = Inr (1, None)"
    by code_simp
  have e2: "filter_run strtod_dec (hdr_ex 2) (''%FILTER='' @ [CHR 0x22] @ ''.'' @ [CHR 0x22])
             (line_ex (FNum 5) [] None None) = Inr (1, None)"
    by code_simp
  have e3: "filter_run strtod_dec (hdr_ex 2) (''%FILTER!='' @ [CHR 0x22] @ ''.'' @ [CHR 0x22])
             (line_ex (FNum 5) [] None None) = Inr (0, None)"
    by code_simp
  have e4: "filter_run strtod_dec (hdr_ex 2) (''%FILTER!='' @ [CHR 0x22] @ ''.'' @ [CHR 0x22])
             (line_ex (FNum 5) [1] None None) = Inr (1, None)"
    by code_simp
  have k: "(filters_cmp_filter atok btok TOK_EQ line \<noteq> 0)
           = (if hdr_id atok = -1 then d_flt line = [] else hdr_id atok \<in> set (d_flt line))
       \<and> (filters_cmp_filter atok btok TOK_NE line \<noteq> 0)
           = (if hdr_id atok = -1 then d_flt line \<noteq> [] else hdr_id atok \<notin> set (d_flt line))
       \<and> (comparator atok \<and> \<not> comparator btok \<and> nvalues atok \<noteq> 0 \<and> nvalues btok \<noteq> 0 \<longrightarrow>
            filter_test_binary line TOK_EQ atok btok
              = Inr (atok\<lparr>pass_site := filters_cmp_filter atok btok TOK_EQ line\<rparr>)
          \<and> filter_test_binary line TOK_NE atok btok
              = Inr (atok\<lparr>pass_site := filters_cmp_filter atok btok TOK_NE line\<rparr>))"
    using m by (auto simp: filters_cmp_filter_def flt_match_set filter_test_binary_def filter_test_compare_def)
  from k e1 e2 e3 e4 show ?thesis
    by blast
qed

text \<open>The hypothesis holds of the record whose only filter is q10 (id 1), compared with
  the token bound to q10.\<close>

theorem filter_comparator_logic_witness:
  "filters_cmp_filter (token0\<lparr>hdr_id := 1, comparator := True, nvalues := 1\<rparr>)
       (token0\<lparr>nvalues := 1\<rparr>) TOK_EQ (line_ex (FNum 5) [1] None None) = 1
   \<and> filters_cmp_filter (token0\<lparr>hdr_id := 1, comparator := True, nvalues := 1\<rparr>)
       (token0\<lparr>nvalues := 1\<rparr>) TOK_NE (line_ex (FNum 5) [1] None None) = 0
   \<and> filter_test_binary (line_ex (FNum 5) [1] None None) TOK_EQ
       (token0\<lparr>hdr_id := 1, comparator := True, nvalues := 1\<rparr>) (token0\<lparr>nvalues := 1\<rparr>)
     = Inr (token0\<lparr>hdr_id := 1, comparator := True, nvalues := 1, pass_site := 1\<rparr>)
   \<and> filter_test_binary (line_ex (FNum 5) [1] None None) TOK_NE
       (token0\<lparr>hdr_id := 1, comparator := True, nvalues := 1\<rparr>) (token0\<lparr>nvalues := 1\<rparr>)
     = Inr (token0\<lparr>hdr_id := 1, comparator := True, nvalues := 1, pass_site := 0\<rparr>)"
  using filter_comparator_logic [of "line_ex (FNum 5) [1] None None"
      "token0\<lparr>hdr_id := 1, comparator := True, nvalues := 1\<rparr>" "token0\<lparr>nvalues := 1\<rparr>"]
    filters_cmp_filter_bit [of "token0\<lparr>hdr_id := 1, comparator := True, nvalues := 1\<rparr>"
      "token0\<lparr>nvalues := 1\<rparr>" TOK_EQ "line_ex (FNum 5) [1] None None"]
    filters_cmp_filter_bit [of "token0\<lparr>hdr_id := 1, comparator := True, nvalues := 1\<rparr>"
      "token0\<lparr>nvalues := 1\<rparr>" TOK_NE "line_ex (FNum 5) [1] None None"]
  by (simp add: token0_def line_ex_def bit01_def)

subsection \<open>C4: records in which the fields are absent\<close>




subsection \<open>C8: the two flavours of the logical AND\<close>

text \<open>
  The claim C8 as it is written fails: \<^verbatim>\<open>vector_logic_and\<close> is not given the operator, so
  no pair of operands tells \<^verbatim>\<open>&\<close> from \<^verbatim>\<open>&&\<close>; with a site-level operand that passes and
  the mask [1,0], both yield the mask [1,0].
\<close>

theorem and_flavours_never_differ:
  "\<not> (\<exists>line a b. filter_test_binary line TOK_AND a b \<noteq> filter_test_binary line TOK_AND_VEC a b)
   \<and> filter_run strtod_dec (hdr_ex 2) ''%QUAL>10 & FMT/GQ>10''
         (line_ex (FNum 20) [] (Some [15, 8]) None) = Inr (1, Some [1, 0])
   \<and> filter_run strtod_dec (hdr_ex 2) ''%QUAL>10 && FMT/GQ>10''
         (line_ex (FNum 20) [] (Some [15, 8]) None) = Inr (1, Some [1, 0])"
proof -
  have "filter_run strtod_dec (hdr_ex 2) ''%QUAL>10 & FMT/GQ>10''
         (line_ex (FNum 20) [] (Some [15, 8]) None) = Inr (1, Some [1, 0])"
    by code_simp
  moreover have "filter_run strtod_dec (hdr_ex 2) ''%QUAL>10 && FMT/GQ>10''
         (line_ex (FNum 20) [] (Some [15, 8]) None) = Inr (1, Some [1, 0])"
    by code_simp
  ultimately show ?thesis by (simp add: filter_test_binary_def)
qed

text \<open>
  C8, amended: the flavours \<^verbatim>\<open>&\<close> (\<^verbatim>\<open>TOK_AND\<close>) and \<^verbatim>\<open>&&\<close> (\<^verbatim>\<open>TOK_AND_VEC\<close>) are
  evaluated alike: on every record, a program and the program in which every AND has the
  other flavour have the same outcome, the same site result and the same mask.
\<close>

theorem and_flavours_agree:
  "filter_test (flt\<lparr>filters := map (and_flavour TOK_AND) (filters flt)\<rparr>) line
     = filter_test (flt\<lparr>filters := map (and_flavour TOK_AND_VEC) (filters flt)\<rparr>) line"
  by (simp add: filter_test_def filter_test_loop_flt filter_test_loop_and_flavour cong: list.case_cong if_cong)

text \<open>Both sides at \<^verbatim>\<open>%QUAL>10 & FMT/GQ>10\<close>, qual=20 and GQ=[15,8].\<close>

theorem and_flavours_agree_witness:
  "filter_test (filter_of (filter_init strtod_dec (hdr_ex 2) ''%QUAL>10 & FMT/GQ>10'')
        \<lparr>filters := map (and_flavour TOK_AND)
           (filters (filter_of (filter_init strtod_dec (hdr_ex 2) ''%QUAL>10 & FMT/GQ>10'')))\<rparr>)
      (line_ex (FNum 20) [] (Some [15, 8]) None) = Inr (1, Some [1, 0])
   \<and> filter_test (filter_of (filter_init strtod_dec (hdr_ex 2) ''%QUAL>10 & FMT/GQ>10'')
        \<lparr>filters := map (and_flavour TOK_AND_VEC)
           (filters (filter_of (filter_init strtod_dec (hdr_ex 2) ''%QUAL>10 & FMT/GQ>10'')))\<rparr>)
      (line_ex (FNum 20) [] (Some [15, 8]) None) = Inr (1, Some [1, 0])"
proof -
  have "filter_test (filter_of (filter_init strtod_dec (hdr_ex 2) ''%QUAL>10 & FMT/GQ>10'')
        \<lparr>filters := map (and_flavour TOK_AND)
           (filters (filter_of (filter_init strtod_dec (hdr_ex 2) ''%QUAL>10 & FMT/GQ>10'')))\<rparr>)
      (line_ex (FNum 20) [] (Some [15, 8]) None) = Inr (1, Some [1, 0])"
    by code_simp
  then show ?thesis
    using and_flavours_agree [of "filter_of (filter_init strtod_dec (hdr_ex 2) ''%QUAL>10 & FMT/GQ>10'')"
        "line_ex (FNum 20) [] (Some [15, 8]) None"]
    by simp
qed

end
